theory Spec2Isabelle
  imports Complex_Main "HOL-Library.Log_Nat" "HOL-Library.AList"
begin

section \<open>Data model\<close>

text \<open>
  The onboarding subsystem of the HR application: the table \<open>onboarding_checklist\<close>
  (created in the migration of 2025-09-10 and extended with \<open>task_type\<close>, \<open>status\<close>,
  \<open>document_url\<close>, \<open>verified_at\<close>, \<open>rejection_reason\<close> by the onboarding migration), the
  client hooks and dashboards that read and update it, the SQL functions that fill it,
  and the role/permission matrix.

  UUIDs are natural numbers. A \<open>DATE\<close> is a day number (days since 1970-01-01), a
  JavaScript time value is a number of milliseconds since the epoch. A nullable column
  is an \<open>option\<close>.
\<close>

type_synonym uuid = nat
type_synonym date = int
type_synonym time_ms = int

text \<open>\<open>CREATE TYPE public.app_role AS ENUM ('admin', 'hr', 'manager', 'employee')\<close>\<close>

datatype app_role = Admin | HR | Manager | Employee

text \<open>
  The \<open>status\<close> column, \<open>CHECK (status IN ('pending', 'submitted', 'verified', 'completed',
  'rejected'))\<close>, typed in the hooks as the union of these five literals.
\<close>

datatype task_status = Pending | Submitted | Verified | Completed | Rejected

text \<open>
  A row of \<open>onboarding_checklist\<close>, with the columns that the modelled operations read
  or write. The columns \<open>is_completed\<close>, \<open>completed_by\<close>, \<open>completed_at\<close>, \<open>created_at\<close>,
  \<open>validation_result\<close>, \<open>verified_by\<close> and \<open>progress_percentage\<close> are touched by none of
  them and are left out. The table has no column \<open>updated_at\<close>: it is created without
  one and no migration adds one.
\<close>

record onboarding_task =
  task_id :: uuid
  employee_id :: uuid
  task_name :: string
  task_description :: "string option"
  task_type :: "string option"
  assigned_to :: "string option"
  due_date :: "date option"
  priority :: "string option"
  status :: task_status
  document_url :: "string option"
  verified_at :: "time_ms option"
  rejection_reason :: "string option"

section \<open>Aggregation (useOnboarding.ts, EmployeeOnboardingDashboard.tsx)\<close>

text \<open>
  \<open>new Date(task.due_date)\<close>: a date string \<open>YYYY-MM-DD\<close> is read as midnight UTC of
  that day; \<open>new Date(null)\<close> is the epoch.
\<close>

definition date_ms :: "date option \<Rightarrow> time_ms" where
  "date_ms d = (case d of None \<Rightarrow> 0 | Some n \<Rightarrow> n * 86400000)"

text \<open>
  EmployeeOnboardingDashboard.tsx, the per-task flag:
  \<^verbatim>\<open>
  const isOverdue = new Date(task.due_date) < new Date() &&
    (task.status === 'pending' || task.status === 'rejected');
  \<close>
  The current time \<open>new Date()\<close> is the argument \<open>now\<close>.
\<close>

definition isOverdue :: "onboarding_task \<Rightarrow> time_ms \<Rightarrow> bool" where
  "isOverdue task now =
     (date_ms (due_date task) < now \<and> (status task = Pending \<or> status task = Rejected))"

text \<open>
  useOnboarding.ts, \<open>getTaskStats\<close>:
  \<^verbatim>\<open>
  const stats = { total: onboardingTasks.length,
                  pending: 0, submitted: 0, completed: 0, rejected: 0, overdue: 0 };
  onboardingTasks.forEach(task => {
    stats[task.status as keyof typeof stats]++;
    if ((task.status === 'pending' || task.status === 'rejected') &&
        new Date(task.due_date) < new Date()) {
      stats.overdue++;
    }
  });
  return stats;
  \<close>
  The object has no key \<open>verified\<close>: for a task of that status \<open>stats['verified']++\<close>
  reads \<open>undefined\<close> and stores \<open>NaN\<close> under a new key, and none of the six counters
  changes. The field \<open>verified_is_NaN\<close> records that this key has been created.
\<close>

record task_stats =
  total :: nat
  pending :: nat
  submitted :: nat
  completed :: nat
  rejected :: nat
  overdue :: nat
  verified_is_NaN :: bool

fun increment :: "task_status \<Rightarrow> task_stats \<Rightarrow> task_stats" where
  "increment Pending stats = stats\<lparr>pending := pending stats + 1\<rparr>"
| "increment Submitted stats = stats\<lparr>submitted := submitted stats + 1\<rparr>"
| "increment Completed stats = stats\<lparr>completed := completed stats + 1\<rparr>"
| "increment Rejected stats = stats\<lparr>rejected := rejected stats + 1\<rparr>"
| "increment Verified stats = stats\<lparr>verified_is_NaN := True\<rparr>"

definition forEach_body :: "time_ms \<Rightarrow> task_stats \<Rightarrow> onboarding_task \<Rightarrow> task_stats" where
  "forEach_body now stats task =
     (let stats1 = increment (status task) stats
      in if (status task = Pending \<or> status task = Rejected)
            \<and> date_ms (due_date task) < now
         then stats1\<lparr>overdue := overdue stats1 + 1\<rparr>
         else stats1)"

definition getTaskStats :: "onboarding_task list \<Rightarrow> time_ms \<Rightarrow> task_stats" where
  "getTaskStats onboardingTasks now =
     foldl (forEach_body now)
       \<lparr>total = length onboardingTasks, pending = 0, submitted = 0, completed = 0,
        rejected = 0, overdue = 0, verified_is_NaN = False\<rparr>
       onboardingTasks"

text \<open>
  JavaScript numbers are IEEE-754 binary64 values. A non-negative finite one is modelled
  by a pair \<open>(m, e)\<close> that stands for \<open>m * 2 ^ e\<close>; the operands of the progress
  computation are list lengths, which are exactly representable. \<open>fl a b\<close> is the
  binary64 value nearest to the quotient \<open>a / b\<close> (round to nearest, ties to even; the
  mantissa has 53 bits), for \<open>b > 0\<close> and a quotient in the normal range.
\<close>

type_synonym double = "nat \<times> int"

definition round_ties_even :: "nat \<Rightarrow> nat \<Rightarrow> nat" where
  "round_ties_even a b =
     (let q = a div b; r = a mod b
      in if 2 * r < b then q
         else if b < 2 * r then q + 1
         else if even q then q else q + 1)"

definition fl :: "nat \<Rightarrow> nat \<Rightarrow> double" where
  "fl a b =
     (if a = 0 then (0, 0)
      else
        let e0 = bitlen (int a) - bitlen (int b) - 53;
            e = (if b * 2 ^ nat (e0 + 53) \<le> a * 2 ^ nat (- (e0 + 53)) then e0 + 1 else e0)
        in (round_ties_even (a * 2 ^ nat (- e)) (b * 2 ^ nat e), e))"

text \<open>\<open>a / b\<close> on two integers, \<open>x * n\<close> on a double and an integer, and \<open>Math.round\<close>
  (the nearest integer, a tie going up).\<close>

definition js_div :: "nat \<Rightarrow> nat \<Rightarrow> double" where
  "js_div a b = fl a b"

definition js_times :: "double \<Rightarrow> nat \<Rightarrow> double" where
  "js_times x n = (case x of (m, e) \<Rightarrow> fl (m * n * 2 ^ nat e) (2 ^ nat (- e)))"

definition Math_round :: "double \<Rightarrow> nat" where
  "Math_round x =
     (case x of (m, e) \<Rightarrow> (2 * m * 2 ^ nat e + 2 ^ nat (- e)) div (2 * 2 ^ nat (- e)))"

text \<open>
  useOnboarding.ts, \<open>calculateProgress\<close> (the same expression is \<open>progressPercentage\<close>
  in EmployeeOnboardingDashboard.tsx and \<open>progress_percentage\<close> in the HR dashboard):
  \<^verbatim>\<open>
  if (onboardingTasks.length === 0) return 0;
  const completedTasks = onboardingTasks.filter(task =>
    task.status === 'completed' || task.status === 'verified').length;
  return Math.round((completedTasks / onboardingTasks.length) * 100);
  \<close>
\<close>

definition calculateProgress :: "onboarding_task list \<Rightarrow> nat" where
  "calculateProgress onboardingTasks =
     (if length onboardingTasks = 0 then 0
      else
        let completedTasks =
              length (filter (\<lambda>task. status task = Completed \<or> status task = Verified)
                        onboardingTasks)
        in Math_round (js_times (js_div completedTasks (length onboardingTasks)) 100))"

text \<open>Example rows: a task of employee 1 with a given id, status and due date.\<close>

definition example_task :: "uuid \<Rightarrow> task_status \<Rightarrow> date option \<Rightarrow> onboarding_task" where
  "example_task i s d =
     \<lparr>task_id = i, employee_id = 1, task_name = ''Upload Identity Document'',
      task_description = None, task_type = Some ''document'', assigned_to = Some ''Employee'',
      due_date = d, priority = Some ''high'', status = s, document_url = None,
      verified_at = None, rejection_reason = None\<rparr>"

text \<open>
  Following the spec's words (section 4.4): \<open>progressPercent = round(100 * completed /
  total)\<close>, defined as 0 when \<open>total = 0\<close>. The quotient is exact; a tie goes up. (For
  the tie of the theorem below, 57.5, rounding to even or away from zero gives 58 too.)
\<close>

definition progressPercent_spec :: "nat \<Rightarrow> nat \<Rightarrow> nat" where
  "progressPercent_spec completed_count total_count =
     (if total_count = 0 then 0
      else (200 * completed_count + total_count) div (2 * total_count))"

section \<open>Access guard (usePermissions.ts, user_has_permission)\<close>

text \<open>
  A row of \<open>role_permissions\<close> (column \<open>role\<close> is the field \<open>perm_role\<close>); the four flags
  are \<open>BOOLEAN DEFAULT false\<close> and nullable, and \<open>UNIQUE(role, resource)\<close> is not assumed.
\<close>

record role_permission =
  perm_role :: app_role
  resource :: string
  can_create :: "bool option"
  can_read :: "bool option"
  can_update :: "bool option"
  can_delete :: "bool option"

text \<open>A row of \<open>profiles\<close>: \<open>user_id UUID NOT NULL UNIQUE\<close>, \<open>role app_role NOT NULL\<close>.\<close>

record profile =
  user_id :: uuid
  role :: app_role

text \<open>The rows inserted by the migration (\<open>Insert default role permissions\<close>).\<close>

definition perm :: "app_role \<Rightarrow> string \<Rightarrow> bool \<Rightarrow> bool \<Rightarrow> bool \<Rightarrow> bool \<Rightarrow> role_permission" where
  "perm r res c rd u d =
     \<lparr>perm_role = r, resource = res, can_create = Some c, can_read = Some rd,
      can_update = Some u, can_delete = Some d\<rparr>"

definition default_role_permissions :: "role_permission list" where
  "default_role_permissions =
     [perm Admin ''users'' True True True True,
      perm Admin ''roles'' True True True True,
      perm Admin ''audit_logs'' False True False False,
      perm Admin ''settings'' True True True True,
      perm Admin ''employees'' True True True True,
      perm Admin ''leave_requests'' True True True True,
      perm Admin ''notifications'' True True True True,
      perm HR ''employees'' True True True False,
      perm HR ''leave_requests'' False True True False,
      perm HR ''notifications'' True True True False,
      perm HR ''users'' False True True False,
      perm Manager ''employees'' False True True False,
      perm Manager ''leave_requests'' False True True False,
      perm Manager ''notifications'' False True False False,
      perm Employee ''profile'' False True True False,
      perm Employee ''leave_requests'' True True True False,
      perm Employee ''notifications'' False True True False]"

text \<open>
  usePermissions.ts, the effect that fills the state \<open>permissions\<close>: nothing is fetched
  without \<open>profile?.role\<close>; otherwise the rows of the role
  (\<open>.from('role_permissions').select('*').eq('role', profile.role)\<close>).
\<close>

definition fetchPermissions :: "role_permission list \<Rightarrow> app_role option \<Rightarrow> role_permission list" where
  "fetchPermissions table profile_role =
     (case profile_role of
        None \<Rightarrow> []
      | Some r \<Rightarrow> filter (\<lambda>p. perm_role p = r) table)"

text \<open>
  \<^verbatim>\<open>
  const hasPermission = (resource, action) => {
    const permission = permissions.find(p => p.resource === resource);
    if (!permission) return false;
    switch (action) {
      case 'create': return permission.can_create;
      case 'read': return permission.can_read;
      case 'update': return permission.can_update;
      case 'delete': return permission.can_delete;
      default: return false;
    }
  };
  \<close>
  The declared result is \<open>boolean\<close>; a flag that is NULL in the table is read as false.
\<close>

definition js_boolean :: "bool option \<Rightarrow> bool" where
  "js_boolean b = (case b of None \<Rightarrow> False | Some v \<Rightarrow> v)"

definition hasPermission :: "role_permission list \<Rightarrow> string \<Rightarrow> string \<Rightarrow> bool" where
  "hasPermission permissions res action =
     (case find (\<lambda>p. resource p = res) permissions of
        None \<Rightarrow> False
      | Some permission \<Rightarrow>
          if action = ''create'' then js_boolean (can_create permission)
          else if action = ''read'' then js_boolean (can_read permission)
          else if action = ''update'' then js_boolean (can_update permission)
          else if action = ''delete'' then js_boolean (can_delete permission)
          else False)"

text \<open>
  \<^verbatim>\<open>
  SELECT role INTO user_role FROM public.profiles WHERE user_id = p_user_id;
  SELECT CASE WHEN p_action = 'create' THEN can_create
              WHEN p_action = 'read' THEN can_read
              WHEN p_action = 'update' THEN can_update
              WHEN p_action = 'delete' THEN can_delete
              ELSE false END INTO has_permission
  FROM public.role_permissions
  WHERE role = user_role AND resource = p_resource;
  RETURN COALESCE(has_permission, false);
  \<close>
  \<open>SELECT ... INTO\<close> takes the first row and gives NULL when there is none; no row
  satisfies \<open>role = user_role\<close> when \<open>user_role\<close> is NULL.
\<close>

definition user_has_permission ::
  "profile list \<Rightarrow> role_permission list \<Rightarrow> uuid \<Rightarrow> string \<Rightarrow> string \<Rightarrow> bool" where
  "user_has_permission profiles_table table p_user_id p_resource p_action =
     (let user_role = map_option role (find (\<lambda>p. user_id p = p_user_id) profiles_table);
          has_permission =
            (case find (\<lambda>r. Some (perm_role r) = user_role \<and> resource r = p_resource) table of
               None \<Rightarrow> None
             | Some r \<Rightarrow>
                 if p_action = ''create'' then can_create r
                 else if p_action = ''read'' then can_read r
                 else if p_action = ''update'' then can_update r
                 else if p_action = ''delete'' then can_delete r
                 else Some False)
      in case has_permission of None \<Rightarrow> False | Some b \<Rightarrow> b)"

text \<open>The flag of a matrix row that an action asks for; no flag for any other action.\<close>

definition requested_flag :: "string \<Rightarrow> role_permission \<Rightarrow> bool option" where
  "requested_flag action r =
     (if action = ''create'' then can_create r
      else if action = ''read'' then can_read r
      else if action = ''update'' then can_update r
      else if action = ''delete'' then can_delete r
      else None)"

section \<open>The task store and its row-level policy\<close>

text \<open>
  A row of \<open>employees\<close> (\<open>hire_date DATE\<close> is nullable), a JSON object of a template's
  \<open>tasks\<close> array as its keys with the text of their values (what \<open>->>\<close> returns; a
  missing key or a JSON null gives NULL), and a row of \<open>onboarding_templates\<close>.
\<close>

record employee =
  emp_id :: uuid
  hire_date :: "date option"

type_synonym jsonb_object = "(string \<times> string) list"

record onboarding_template =
  template_id :: uuid
  template_name :: string
  tasks :: "jsonb_object list"
  is_active :: "bool option"

record database =
  profiles :: "profile list"
  employees :: "employee list"
  onboarding_checklist :: "onboarding_task list"
  onboarding_templates :: "onboarding_template list"

text \<open>
  The errors that reach the client: PostgreSQL's \<open>not_null_violation\<close> (23502),
  \<open>foreign_key_violation\<close> (23503), \<open>check_violation\<close> (23514),
  \<open>invalid_text_representation\<close> (22P02), \<open>numeric_value_out_of_range\<close> (22003), and
  PostgREST's PGRST116, the answer to \<open>.single()\<close> when the result is not exactly one row,
  and PGRST204, the answer to a request whose payload names a key that is not a column
  of the table.
\<close>

datatype pg_error =
    NotNullViolation
  | ForeignKeyViolation
  | CheckViolation
  | InvalidTextRepresentation
  | NumericValueOutOfRange
  | PGRST116
  | PGRST204

text \<open>
  The policies on \<open>onboarding_checklist\<close>: two \<open>FOR SELECT\<close> policies and
  \<^verbatim>\<open>
  CREATE POLICY "Admins and HR can manage onboarding tasks"
  ON public.onboarding_checklist FOR ALL
  USING (EXISTS (SELECT 1 FROM profiles
                 WHERE profiles.user_id = auth.uid() AND profiles.role IN ('admin', 'hr')));
  \<close>
  which is the only one that admits an \<open>UPDATE\<close>. \<open>auth.uid()\<close> is NULL without a session.
\<close>

definition admins_and_hr_can_manage :: "database \<Rightarrow> uuid option \<Rightarrow> bool" where
  "admins_and_hr_can_manage db auth_uid =
     (\<exists>p \<in> set (profiles db). Some (user_id p) = auth_uid \<and> (role p = Admin \<or> role p = HR))"

text \<open>
  The object \<open>updateData\<close> that the three mutations build: the key \<open>status\<close> always, the
  other keys only when set. \<open>status\<close>, \<open>document_url\<close>, \<open>rejection_reason\<close> and
  \<open>verified_at\<close> are columns of the table; \<open>updated_at\<close> is not.
\<close>

record update_data =
  new_status :: task_status
  new_updated_at :: "time_ms option"
  new_document_url :: "string option"
  new_rejection_reason :: "string option"
  new_verified_at :: "time_ms option"

definition set_column :: "'a option \<Rightarrow> 'a option \<Rightarrow> 'a option" where
  "set_column new old = (case new of None \<Rightarrow> old | Some v \<Rightarrow> Some v)"

definition apply_update :: "update_data \<Rightarrow> onboarding_task \<Rightarrow> onboarding_task" where
  "apply_update updateData task =
     task\<lparr>status := new_status updateData,
          document_url := set_column (new_document_url updateData) (document_url task),
          rejection_reason := set_column (new_rejection_reason updateData) (rejection_reason task),
          verified_at := set_column (new_verified_at updateData) (verified_at task)\<rparr>"

text \<open>
  The \<open>UPDATE\<close> of the rows with a given id under the policy: the rows with that id
  which the policy lets the caller update are rewritten; the result is the list of
  rewritten rows and the new database. A caller the policy does not admit updates no
  row, and that is not an error.
\<close>

definition update_rows ::
  "database \<Rightarrow> uuid option \<Rightarrow> update_data \<Rightarrow> uuid \<Rightarrow> onboarding_task list \<times> database" where
  "update_rows db auth_uid updateData taskId =
     (if admins_and_hr_can_manage db auth_uid
      then
        (map (apply_update updateData)
           (filter (\<lambda>task. task_id task = taskId) (onboarding_checklist db)),
         db\<lparr>onboarding_checklist :=
              map (\<lambda>task. if task_id task = taskId then apply_update updateData task else task)
                (onboarding_checklist db)\<rparr>)
      else ([], db))"

text \<open>
  The request \<open>supabase.from('onboarding_checklist').update(updateData).eq('id', taskId)\<close>:
  a payload with the key \<open>updated_at\<close> is refused with PGRST204 before any row is
  looked at, for every caller; any other payload of the mutations is the \<open>UPDATE\<close>.
\<close>

definition update_eq_id ::
  "database \<Rightarrow> uuid option \<Rightarrow> update_data \<Rightarrow> uuid
     \<Rightarrow> pg_error + onboarding_task list \<times> database" where
  "update_eq_id db auth_uid updateData taskId =
     (if new_updated_at updateData \<noteq> None then Inl PGRST204
      else Inr (update_rows db auth_uid updateData taskId))"

text \<open>\<open>if (x)\<close> on an optional string: \<open>undefined\<close> and the empty string are falsy.\<close>

definition truthy :: "string option \<Rightarrow> string option" where
  "truthy x = (case x of None \<Rightarrow> None | Some s \<Rightarrow> if s = [] then None else Some s)"

text \<open>
  useOnboarding.ts, \<open>updateTaskStatus\<close>:
  \<^verbatim>\<open>
  const updateData: any = { status, updated_at: new Date().toISOString() };
  if (documentUrl) updateData.document_url = documentUrl;
  if (rejectionReason) updateData.rejection_reason = rejectionReason;
  if (status === 'verified') updateData.verified_at = new Date().toISOString();
  const { data, error } = await supabase.from('onboarding_checklist')
    .update(updateData).eq('id', taskId).select().single();
  if (error) throw error;
  return data;
  \<close>
  The payload always has the key \<open>updated_at\<close>, so the request is refused with
  PGRST204, whoever the caller is. (With \<open>.single()\<close> an accepted request whose result is
  no row or several rows would be the error PGRST116, its transaction rolled back.)
\<close>

definition updateTaskStatus ::
  "database \<Rightarrow> uuid option \<Rightarrow> time_ms \<Rightarrow> uuid \<Rightarrow> task_status \<Rightarrow> string option \<Rightarrow> string option
     \<Rightarrow> (pg_error + onboarding_task) \<times> database" where
  "updateTaskStatus db auth_uid now taskId st documentUrl rejectionReason =
     (let updateData =
            \<lparr>new_status = st,
             new_updated_at = Some now,
             new_document_url = truthy documentUrl,
             new_rejection_reason = truthy rejectionReason,
             new_verified_at = (if st = Verified then Some now else None)\<rparr>
      in case update_eq_id db auth_uid updateData taskId of
           Inl err \<Rightarrow> (Inl err, db)
         | Inr ([data], db') \<Rightarrow> (Inr data, db')
         | Inr _ \<Rightarrow> (Inl PGRST116, db))"

text \<open>The text of a status, for a mutation whose parameter is typed \<open>string\<close>.\<close>

definition status_of_string :: "string \<Rightarrow> task_status option" where
  "status_of_string s =
     (if s = ''pending'' then Some Pending
      else if s = ''submitted'' then Some Submitted
      else if s = ''verified'' then Some Verified
      else if s = ''completed'' then Some Completed
      else if s = ''rejected'' then Some Rejected
      else None)"

text \<open>
  EmployeeOnboardingDashboard.tsx, \<open>updateTaskMutation\<close>:
  \<^verbatim>\<open>
  mutationFn: async ({ taskId, status, documentUrl }) => {
    const updateData: any = { status };
    if (documentUrl) updateData.document_url = documentUrl;
    const { error } = await supabase.from('onboarding_checklist')
      .update(updateData).eq('id', taskId);
    if (error) throw error;
  }
  \<close>
  \<open>status\<close> is any string here; a row that would get a status outside the five fails
  the column's \<open>CHECK\<close>. Without \<open>.select()\<close> an update of no row succeeds.
\<close>

definition updateTaskMutation ::
  "database \<Rightarrow> uuid option \<Rightarrow> uuid \<Rightarrow> string \<Rightarrow> string option \<Rightarrow> (pg_error + unit) \<times> database" where
  "updateTaskMutation db auth_uid taskId status_text documentUrl =
     (case status_of_string status_text of
        None \<Rightarrow>
          if admins_and_hr_can_manage db auth_uid
             \<and> (\<exists>task \<in> set (onboarding_checklist db). task_id task = taskId)
          then (Inl CheckViolation, db)
          else (Inr (), db)
      | Some st \<Rightarrow>
          let updateData =
                \<lparr>new_status = st, new_updated_at = None,
                 new_document_url = truthy documentUrl,
                 new_rejection_reason = None, new_verified_at = None\<rparr>
          in case update_eq_id db auth_uid updateData taskId of
               Inl err \<Rightarrow> (Inl err, db)
             | Inr (rows, db') \<Rightarrow> (Inr (), db'))"

text \<open>\<open>handleFileUpload\<close> and \<open>handleCompleteTask\<close> of the same component (the upload
  itself is simulated: \<open>documentUrl = `uploads/${file.name}`\<close>).\<close>

definition handleFileUpload ::
  "database \<Rightarrow> uuid option \<Rightarrow> uuid \<Rightarrow> string \<Rightarrow> (pg_error + unit) \<times> database" where
  "handleFileUpload db auth_uid taskId file_name =
     updateTaskMutation db auth_uid taskId ''submitted'' (Some (''uploads/'' @ file_name))"

definition handleCompleteTask ::
  "database \<Rightarrow> uuid option \<Rightarrow> uuid \<Rightarrow> (pg_error + unit) \<times> database" where
  "handleCompleteTask db auth_uid taskId =
     updateTaskMutation db auth_uid taskId ''completed'' None"

text \<open>
  The HR dashboard, \<open>verifyTaskMutation\<close> (\<open>status: 'verified' | 'rejected'\<close>):
  \<^verbatim>\<open>
  const updateData: any = { status, verified_at: new Date().toISOString() };
  if (reason) updateData.rejection_reason = reason;
  const { error } = await supabase.from('onboarding_checklist')
    .update(updateData).eq('id', taskId);
  if (error) throw error;
  \<close>
\<close>

datatype review_status = ReviewVerified | ReviewRejected

fun task_status_of :: "review_status \<Rightarrow> task_status" where
  "task_status_of ReviewVerified = Verified"
| "task_status_of ReviewRejected = Rejected"

definition verifyTaskMutation ::
  "database \<Rightarrow> uuid option \<Rightarrow> time_ms \<Rightarrow> uuid \<Rightarrow> review_status \<Rightarrow> string option
     \<Rightarrow> (pg_error + unit) \<times> database" where
  "verifyTaskMutation db auth_uid now taskId st reason =
     (let updateData =
            \<lparr>new_status = task_status_of st, new_updated_at = None,
             new_document_url = None,
             new_rejection_reason = truthy reason,
             new_verified_at = Some now\<rparr>
      in case update_eq_id db auth_uid updateData taskId of
           Inl err \<Rightarrow> (Inl err, db)
         | Inr (rows, db') \<Rightarrow> (Inr (), db'))"

text \<open>
  \<open>handleApprove\<close> and \<open>handleReject\<close>; the latter issues no request (the result \<open>None\<close>)
  without a selected task or when \<open>rejectionReason.trim()\<close> is empty. Characters are
  8-bit here, of which \<open>trim\<close> removes tab, line feed, vertical tab, form feed, carriage
  return, space and no-break space.
\<close>

definition js_whitespace :: "char \<Rightarrow> bool" where
  "js_whitespace c = (of_char c \<in> {9, 10, 11, 12, 13, 32, 160 :: nat})"

definition trim :: "string \<Rightarrow> string" where
  "trim s = rev (dropWhile js_whitespace (rev (dropWhile js_whitespace s)))"

definition handleApprove ::
  "database \<Rightarrow> uuid option \<Rightarrow> time_ms \<Rightarrow> onboarding_task \<Rightarrow> (pg_error + unit) \<times> database" where
  "handleApprove db auth_uid now task =
     verifyTaskMutation db auth_uid now (task_id task) ReviewVerified None"

definition handleReject ::
  "database \<Rightarrow> uuid option \<Rightarrow> time_ms \<Rightarrow> onboarding_task option \<Rightarrow> string
     \<Rightarrow> (pg_error + unit) option \<times> database" where
  "handleReject db auth_uid now selectedTask rejectionReason =
     (case selectedTask of
        None \<Rightarrow> (None, db)
      | Some task \<Rightarrow>
          if trim rejectionReason = [] then (None, db)
          else
            (case verifyTaskMutation db auth_uid now (task_id task) ReviewRejected
                    (Some rejectionReason) of
               (r, db') \<Rightarrow> (Some r, db')))"

section \<open>The HR dashboard's sessions (query \<open>hr-onboarding-sessions\<close>)\<close>

text \<open>
  \<^verbatim>\<open>
  const employeeStats = data.reduce((acc, task) => {
    const empId = task.employee_id;
    if (!acc[empId]) { acc[empId] = { employee_id: empId, ..., total_tasks: 0,
        completed_tasks: 0, pending_tasks: 0, overdue_tasks: 0, progress_percentage: 0 }; }
    acc[empId].total_tasks++;
    if (task.status === 'completed' || task.status === 'verified') {
      acc[empId].completed_tasks++;
    } else if (task.status === 'pending' || task.status === 'rejected') {
      acc[empId].pending_tasks++;
      if (new Date(task.due_date) < new Date()) { acc[empId].overdue_tasks++; }
    }
    return acc;
  }, {});
  Object.values(employeeStats).forEach((stats) => {
    stats.progress_percentage = stats.total_tasks > 0
      ? Math.round((stats.completed_tasks / stats.total_tasks) * 100) : 0;
  });
  return Object.values(employeeStats);
  \<close>
  The object \<open>acc\<close> is an association list in insertion order, which is the order of
  \<open>Object.values\<close> for keys that are UUIDs. The name, department and dates that the
  query joins in are left out.
\<close>

record onboarding_session =
  session_employee_id :: uuid
  total_tasks :: nat
  completed_tasks :: nat
  pending_tasks :: nat
  overdue_tasks :: nat
  progress_percentage :: nat

definition count_task :: "time_ms \<Rightarrow> onboarding_session \<Rightarrow> onboarding_task \<Rightarrow> onboarding_session" where
  "count_task now stats task =
     (let s1 = stats\<lparr>total_tasks := total_tasks stats + 1\<rparr>
      in if status task = Completed \<or> status task = Verified
         then s1\<lparr>completed_tasks := completed_tasks s1 + 1\<rparr>
         else if status task = Pending \<or> status task = Rejected
         then
           (let s2 = s1\<lparr>pending_tasks := pending_tasks s1 + 1\<rparr>
            in if date_ms (due_date task) < now
               then s2\<lparr>overdue_tasks := overdue_tasks s2 + 1\<rparr>
               else s2)
         else s1)"

definition reduce_step ::
  "time_ms \<Rightarrow> (uuid \<times> onboarding_session) list \<Rightarrow> onboarding_task
     \<Rightarrow> (uuid \<times> onboarding_session) list" where
  "reduce_step now acc task =
     (let empId = employee_id task;
          current =
            (case map_of acc empId of
               None \<Rightarrow>
                 \<lparr>session_employee_id = empId, total_tasks = 0, completed_tasks = 0,
                  pending_tasks = 0, overdue_tasks = 0, progress_percentage = 0\<rparr>
             | Some stats \<Rightarrow> stats)
      in AList.update empId (count_task now current task) acc)"

definition set_progress :: "onboarding_session \<Rightarrow> onboarding_session" where
  "set_progress stats =
     stats\<lparr>progress_percentage :=
             (if total_tasks stats > 0
              then Math_round (js_times (js_div (completed_tasks stats) (total_tasks stats)) 100)
              else 0)\<rparr>"

definition hr_onboarding_sessions :: "onboarding_task list \<Rightarrow> time_ms \<Rightarrow> onboarding_session list" where
  "hr_onboarding_sessions data now =
     map (set_progress \<circ> snd) (foldl (reduce_step now) [] data)"

section \<open>Template engine (create_onboarding_tasks_from_template)\<close>

text \<open>
  The cast \<open>(task->>'due_days')::INTEGER\<close>: optional blanks, an optional sign, decimal
  digits, optional blanks; anything else is \<open>invalid_text_representation\<close>, a value
  outside 32 bits is \<open>numeric_value_out_of_range\<close>.
\<close>

definition isspace :: "char \<Rightarrow> bool" where
  "isspace c =
     (c = CHR '' '' \<or> c = CHR 0x09 \<or> c = CHR 0x0A \<or> c = CHR 0x0B \<or> c = CHR 0x0C \<or> c = CHR 0x0D)"

definition digit_value :: "char \<Rightarrow> nat option" where
  "digit_value c =
     (let code = (of_char c :: nat)
      in if of_char CHR ''0'' \<le> code \<and> code \<le> of_char CHR ''9''
         then Some (code - of_char CHR ''0'')
         else None)"

fun digits_value :: "nat \<Rightarrow> string \<Rightarrow> nat option" where
  "digits_value acc [] = Some acc"
| "digits_value acc (c # cs) =
     (case digit_value c of
        None \<Rightarrow> None
      | Some d \<Rightarrow> digits_value (10 * acc + d) cs)"

definition cast_integer :: "string \<Rightarrow> pg_error + int" where
  "cast_integer txt =
     (let s = rev (dropWhile isspace (rev (dropWhile isspace txt)));
          negative = (s \<noteq> [] \<and> hd s = CHR ''-'');
          digits = (if s \<noteq> [] \<and> (hd s = CHR ''-'' \<or> hd s = CHR ''+'') then tl s else s)
      in if digits = [] then Inl InvalidTextRepresentation
         else
           (case digits_value 0 digits of
              None \<Rightarrow> Inl InvalidTextRepresentation
            | Some n \<Rightarrow>
                let v = (if negative then - int n else int n)
                in if - 2147483648 \<le> v \<and> v \<le> 2147483647 then Inr v
                   else Inl NumericValueOutOfRange))"

text \<open>
  \<open>task_type TEXT DEFAULT 'general' CHECK (task_type IN ('document', 'policy', 'it_setup',
  'training', 'general'))\<close>; a \<open>CHECK\<close> passes on NULL.
\<close>

definition task_type_check :: "string option \<Rightarrow> bool" where
  "task_type_check ty =
     (case ty of
        None \<Rightarrow> True
      | Some s \<Rightarrow> s \<in> {''document'', ''policy'', ''it_setup'', ''training'', ''general''})"

text \<open>\<open>gen_random_uuid()\<close>: an id that no row of the table has.\<close>

definition gen_random_uuid :: "database \<Rightarrow> uuid" where
  "gen_random_uuid db = Suc (fold max (map task_id (onboarding_checklist db)) 0)"

text \<open>
  The \<open>INSERT\<close> of the loop body, with \<open>CURRENT_DATE\<close> as an argument:
  \<^verbatim>\<open>
  INSERT INTO onboarding_checklist (employee_id, task_name, task_description, task_type,
                                    assigned_to, due_date, priority, status)
  VALUES (p_employee_id, task->>'task_name', task->>'task_description', task->>'task_type',
          task->>'assigned_to',
          (CURRENT_DATE + INTERVAL '1 day' * (task->>'due_days')::INTEGER),
          task->>'priority', 'pending');
  \<close>
  The values are computed first (the cast may fail), then \<open>task_name TEXT NOT NULL\<close>, the
  \<open>CHECK\<close> on \<open>task_type\<close> and the foreign key \<open>employee_id REFERENCES employees(id)\<close>
  are checked. The range of PostgreSQL's dates is not modelled.
\<close>

definition insert_template_task ::
  "date \<Rightarrow> uuid \<Rightarrow> jsonb_object \<Rightarrow> database \<Rightarrow> pg_error + database" where
  "insert_template_task current_date p_employee_id task db =
     (case (case map_of task ''due_days'' of
              None \<Rightarrow> Inr None
            | Some txt \<Rightarrow>
                (case cast_integer txt of Inl e \<Rightarrow> Inl e | Inr n \<Rightarrow> Inr (Some n))) of
        Inl e \<Rightarrow> Inl e
      | Inr due_days \<Rightarrow>
          (case map_of task ''task_name'' of
             None \<Rightarrow> Inl NotNullViolation
           | Some name \<Rightarrow>
               if \<not> task_type_check (map_of task ''task_type'') then Inl CheckViolation
               else if p_employee_id \<notin> set (map emp_id (employees db))
               then Inl ForeignKeyViolation
               else
                 Inr (db\<lparr>onboarding_checklist :=
                          onboarding_checklist db @
                          [\<lparr>task_id = gen_random_uuid db,
                            employee_id = p_employee_id,
                            task_name = name,
                            task_description = map_of task ''task_description'',
                            task_type = map_of task ''task_type'',
                            assigned_to = map_of task ''assigned_to'',
                            due_date = map_option (\<lambda>n. current_date + n) due_days,
                            priority = map_of task ''priority'',
                            status = Pending,
                            document_url = None,
                            verified_at = None,
                            rejection_reason = None\<rparr>]\<rparr>)))"

text \<open>\<open>FOR task_record IN SELECT * FROM jsonb_array_elements(template_tasks) LOOP ... END LOOP\<close>:
  the first failing \<open>INSERT\<close> raises and ends the loop.\<close>

fun insert_loop :: "date \<Rightarrow> uuid \<Rightarrow> jsonb_object list \<Rightarrow> database \<Rightarrow> pg_error + database" where
  "insert_loop current_date p_employee_id [] db = Inr db"
| "insert_loop current_date p_employee_id (task # rest) db =
     (case insert_template_task current_date p_employee_id task db of
        Inl e \<Rightarrow> Inl e
      | Inr db' \<Rightarrow> insert_loop current_date p_employee_id rest db')"

text \<open>
  \<^verbatim>\<open>
  IF p_template_id IS NULL THEN
    SELECT tasks INTO template_tasks FROM onboarding_templates
    WHERE template_name = 'Default Onboarding' AND is_active = true LIMIT 1;
  ELSE
    SELECT tasks INTO template_tasks FROM onboarding_templates
    WHERE id = p_template_id AND is_active = true;
  END IF;
  \<close>
\<close>

definition select_template_tasks :: "database \<Rightarrow> uuid option \<Rightarrow> jsonb_object list option" where
  "select_template_tasks db p_template_id =
     map_option tasks
       (case p_template_id of
          None \<Rightarrow>
            find (\<lambda>t. template_name t = ''Default Onboarding'' \<and> is_active t = Some True)
              (onboarding_templates db)
        | Some i \<Rightarrow>
            find (\<lambda>t. template_id t = i \<and> is_active t = Some True) (onboarding_templates db))"

text \<open>The body of the function: \<open>IF template_tasks IS NOT NULL THEN\<close> the loop.\<close>

definition template_function_body :: "date \<Rightarrow> uuid \<Rightarrow> uuid option \<Rightarrow> database \<Rightarrow> pg_error + database" where
  "template_function_body current_date p_employee_id p_template_id db =
     (case select_template_tasks db p_template_id of
        None \<Rightarrow> Inr db
      | Some template_tasks \<Rightarrow> insert_loop current_date p_employee_id template_tasks db)"

text \<open>
  The call \<open>supabase.rpc('create_onboarding_tasks_from_template', ...)\<close> of
  \<open>generateTasksFromTemplate\<close>. The function has no \<open>EXCEPTION\<close> block and runs in the
  transaction of the request: an error raised in it aborts that transaction, and the
  database is the one before the call.
\<close>

definition create_onboarding_tasks_from_template ::
  "database \<Rightarrow> date \<Rightarrow> uuid \<Rightarrow> uuid option \<Rightarrow> (pg_error + unit) \<times> database" where
  "create_onboarding_tasks_from_template db current_date p_employee_id p_template_id =
     (case template_function_body current_date p_employee_id p_template_id db of
        Inl e \<Rightarrow> (Inl e, db)
      | Inr db' \<Rightarrow> (Inr (), db'))"

text \<open>The template that the migration inserts, \<open>'Default Onboarding'\<close>.\<close>

definition blueprint :: "string \<Rightarrow> string \<Rightarrow> string \<Rightarrow> string \<Rightarrow> string \<Rightarrow> string \<Rightarrow> jsonb_object" where
  "blueprint name description ty assignee days prio =
     [(''task_name'', name), (''task_description'', description), (''task_type'', ty),
      (''assigned_to'', assignee), (''due_days'', days), (''priority'', prio)]"

definition default_onboarding_template :: "uuid \<Rightarrow> onboarding_template" where
  "default_onboarding_template i =
     \<lparr>template_id = i, template_name = ''Default Onboarding'',
      tasks =
        [blueprint ''Upload Identity Document''
           ''Upload a valid government-issued ID (passport, driver license, etc.)''
           ''document'' ''Employee'' ''3'' ''high'',
         blueprint ''Bank Account Information''
           ''Provide bank account details for payroll setup''
           ''document'' ''Employee'' ''5'' ''high'',
         blueprint ''Employment Contract Acknowledgment''
           ''Review and acknowledge employment contract terms''
           ''policy'' ''Employee'' ''2'' ''high'',
         blueprint ''IT Equipment Setup''
           ''Set up laptop, email, and system access''
           ''it_setup'' ''IT Department'' ''1'' ''high'',
         blueprint ''Company Orientation Training''
           ''Complete mandatory company orientation and training modules''
           ''training'' ''Employee'' ''7'' ''medium'',
         blueprint ''Safety Training''
           ''Complete workplace safety and emergency procedures training''
           ''training'' ''Employee'' ''10'' ''medium''],
      is_active = Some True\<rparr>"

section \<open>The trigger on \<open>employees\<close> (create_onboarding_checklist)\<close>

text \<open>
  \<^verbatim>\<open>
  INSERT INTO public.onboarding_checklist
    (employee_id, task_name, task_description, assigned_to, due_date, priority)
  VALUES
    (NEW.id, 'IT Setup', 'Create accounts and provide hardware', 'IT Department',
       NEW.hire_date + INTERVAL '1 day', 'high'),
    (NEW.id, 'HR Documentation', 'Complete all HR forms and documentation', 'HR Department',
       NEW.hire_date + INTERVAL '3 days', 'high'),
    (NEW.id, 'Office Tour', 'Introduce to team and office facilities', 'Manager',
       NEW.hire_date, 'medium'),
    (NEW.id, 'Training Schedule', 'Assign relevant training modules', 'HR Department',
       NEW.hire_date + INTERVAL '1 week', 'medium'),
    (NEW.id, 'Payroll Setup', 'Setup payroll and benefits', 'Payroll Department',
       NEW.hire_date + INTERVAL '5 days', 'high');
  RETURN NEW;
  \<close>
  run \<open>AFTER INSERT ON public.employees FOR EACH ROW\<close>. The columns that the statement
  does not name take their defaults: \<open>task_type 'general'\<close>, \<open>status 'pending'\<close>, NULL
  for the rest. A NULL hire date gives NULL due dates.
\<close>

definition insert_default_task ::
  "uuid \<Rightarrow> string \<Rightarrow> string \<Rightarrow> string \<Rightarrow> date option \<Rightarrow> string \<Rightarrow> database \<Rightarrow> database" where
  "insert_default_task emp name description assignee due prio db =
     db\<lparr>onboarding_checklist :=
          onboarding_checklist db @
          [\<lparr>task_id = gen_random_uuid db, employee_id = emp, task_name = name,
            task_description = Some description, task_type = Some ''general'',
            assigned_to = Some assignee, due_date = due, priority = Some prio,
            status = Pending, document_url = None, verified_at = None,
            rejection_reason = None\<rparr>]\<rparr>"

definition plus_days :: "date option \<Rightarrow> int \<Rightarrow> date option" where
  "plus_days d n = map_option (\<lambda>day. day + n) d"

definition create_onboarding_checklist :: "employee \<Rightarrow> database \<Rightarrow> database" where
  "create_onboarding_checklist NEW db =
     (insert_default_task (emp_id NEW) ''Payroll Setup'' ''Setup payroll and benefits''
        ''Payroll Department'' (plus_days (hire_date NEW) 5) ''high''
      \<circ> insert_default_task (emp_id NEW) ''Training Schedule''
          ''Assign relevant training modules'' ''HR Department''
          (plus_days (hire_date NEW) 7) ''medium''
      \<circ> insert_default_task (emp_id NEW) ''Office Tour''
          ''Introduce to team and office facilities'' ''Manager'' (hire_date NEW) ''medium''
      \<circ> insert_default_task (emp_id NEW) ''HR Documentation''
          ''Complete all HR forms and documentation'' ''HR Department''
          (plus_days (hire_date NEW) 3) ''high''
      \<circ> insert_default_task (emp_id NEW) ''IT Setup''
          ''Create accounts and provide hardware'' ''IT Department''
          (plus_days (hire_date NEW) 1) ''high'') db"

section \<open>Calendar dates of the examples\<close>

text \<open>The day number of a date of the proleptic Gregorian calendar (days since
  1970-01-01), to write the examples with their dates.\<close>

definition civil :: "int \<Rightarrow> int \<Rightarrow> int \<Rightarrow> date" where
  "civil y m d =
     (let y' = (if m \<le> 2 then y - 1 else y);
          era = y' div 400;
          yoe = y' - era * 400;
          doy = (153 * (if m > 2 then m - 3 else m + 9) + 2) div 5 + d - 1;
          doe = yoe * 365 + yoe div 4 - yoe div 100 + doy
      in era * 146097 + doe - 719468)"

section \<open>Example data\<close>

text \<open>
  A database with an HR user (7), a manager (8) and an employee (9), one employee row
  (hired 2024-01-10), the default template, and one task, with id 1, in a given status.
\<close>

definition example_db :: "task_status \<Rightarrow> database" where
  "example_db st =
     \<lparr>profiles = [\<lparr>user_id = 7, role = HR\<rparr>, \<lparr>user_id = 8, role = Manager\<rparr>,
                  \<lparr>user_id = 9, role = Employee\<rparr>],
      employees = [\<lparr>emp_id = 1, hire_date = Some (civil 2024 1 10)\<rparr>],
      onboarding_checklist = [example_task 1 st (Some (civil 2024 1 13))],
      onboarding_templates = [default_onboarding_template 1]\<rparr>"

text \<open>The status and the rejection reason of the rows with a given id.\<close>

definition status_and_reason :: "database \<Rightarrow> uuid \<Rightarrow> (task_status \<times> string option) list" where
  "status_and_reason db taskId =
     map (\<lambda>task. (status task, rejection_reason task))
       (filter (\<lambda>task. task_id task = taskId) (onboarding_checklist db))"

text \<open>The example database after the HR user has rejected task 1 for a missing
  signature on the HR dashboard.\<close>

definition rejected_db :: database where
  "rejected_db =
     snd (handleReject (example_db Submitted) (Some 7) 0
            (Some (example_task 1 Submitted (Some (civil 2024 1 13)))) ''missing signature'')"

text \<open>
  The due date that a blueprint asks for, counted from an anchor date: the anchor plus
  \<open>due_days\<close>, and NULL for a blueprint without \<open>due_days\<close>.
\<close>

definition blueprint_due_date :: "date \<Rightarrow> jsonb_object \<Rightarrow> date option" where
  "blueprint_due_date anchor task =
     (case map_of task ''due_days'' of
        None \<Rightarrow> None
      | Some days \<Rightarrow>
          (case cast_integer days of Inl e \<Rightarrow> None | Inr n \<Rightarrow> Some (anchor + n)))"

text \<open>
  A database with the employee 1, hired 2024-01-10, no task, and a default template of
  a single blueprint with \<open>due_days\<close> 3.
\<close>

definition one_blueprint_db :: database where
  "one_blueprint_db =
     \<lparr>profiles = [\<lparr>user_id = 7, role = HR\<rparr>],
      employees = [\<lparr>emp_id = 1, hire_date = Some (civil 2024 1 10)\<rparr>],
      onboarding_checklist = [],
      onboarding_templates =
        [\<lparr>template_id = 1, template_name = ''Default Onboarding'',
          tasks = [blueprint ''Upload Identity Document'' ''Upload a valid ID''
                     ''document'' ''Employee'' ''3'' ''high''],
          is_active = Some True\<rparr>]\<rparr>"

text \<open>
  A database with the employee 1, one task, and a template (id 2) of five blueprints
  whose third has a \<open>task_type\<close> that the \<open>CHECK\<close> refuses.
\<close>

definition first_two_blueprints :: "jsonb_object list" where
  "first_two_blueprints =
     [blueprint ''Upload Identity Document'' ''Upload a valid ID'' ''document'' ''Employee''
        ''3'' ''high'',
      blueprint ''Bank Account Information'' ''Provide bank account details'' ''document''
        ''Employee'' ''5'' ''high'']"

definition failing_blueprint :: jsonb_object where
  "failing_blueprint =
     blueprint ''Team Lunch'' ''Meet the team'' ''social'' ''Manager'' ''2'' ''low''"

definition last_two_blueprints :: "jsonb_object list" where
  "last_two_blueprints =
     [blueprint ''IT Equipment Setup'' ''Set up laptop'' ''it_setup'' ''IT Department''
        ''1'' ''high'',
      blueprint ''Safety Training'' ''Complete safety training'' ''training'' ''Employee''
        ''10'' ''medium'']"

definition five_blueprints :: "jsonb_object list" where
  "five_blueprints = first_two_blueprints @ failing_blueprint # last_two_blueprints"

definition third_insert_fails_db :: database where
  "third_insert_fails_db =
     (example_db Pending)
       \<lparr>onboarding_templates :=
          [default_onboarding_template 1,
           \<lparr>template_id = 2, template_name = ''Sales Onboarding'', tasks = five_blueprints,
            is_active = Some True\<rparr>]\<rparr>"

text \<open>The row that applying this template creates, with a given due date.\<close>

definition one_blueprint_task :: "date \<Rightarrow> onboarding_task" where
  "one_blueprint_task due =
     \<lparr>task_id = 1, employee_id = 1, task_name = ''Upload Identity Document'',
      task_description = Some ''Upload a valid ID'', task_type = Some ''document'',
      assigned_to = Some ''Employee'', due_date = Some due, priority = Some ''high'',
      status = Pending, document_url = None, verified_at = None,
      rejection_reason = None\<rparr>"

text \<open>The state inside the failing call, after the first two inserts.\<close>

definition after_two_inserts :: database where
  "after_two_inserts =
     projr (insert_loop (civil 2024 2 1) 1 first_two_blueprints third_insert_fails_db)"
section \<open>Properties of the aggregation\<close>

lemma foldl_forEach_body_overdue:
  "overdue (foldl (forEach_body now) acc ts)
     = overdue acc + length (filter (\<lambda>x. isOverdue x now) ts)"
proof (induction ts arbitrary: acc)
  case Nil
  show ?case by simp
next
  case (Cons t ts)
  have "overdue (forEach_body now acc t)
          = overdue acc + (if isOverdue t now then 1 else 0)"
    by (cases "status t") (auto simp: forEach_body_def isOverdue_def Let_def)
  with Cons.IH [of "forEach_body now acc t"] show ?case by simp
qed

lemma foldl_forEach_body_total:
  "total (foldl (forEach_body now) acc ts) = total acc"
proof (induction ts arbitrary: acc)
  case Nil
  show ?case by simp
next
  case (Cons t ts)
  have "total (forEach_body now acc t) = total acc"
    by (cases "status t") (auto simp: forEach_body_def Let_def)
  with Cons.IH [of "forEach_body now acc t"] show ?case by simp
qed

lemma foldl_forEach_body_counters:
  "completed (foldl (forEach_body now) acc ts)
     + pending (foldl (forEach_body now) acc ts)
     + submitted (foldl (forEach_body now) acc ts)
     + rejected (foldl (forEach_body now) acc ts)
     + length (filter (\<lambda>x. status x = Verified) ts)
   = completed acc + pending acc + submitted acc + rejected acc + length ts"
proof (induction ts arbitrary: acc)
  case Nil
  show ?case by simp
next
  case (Cons t ts)
  have step: "completed (forEach_body now acc t) + pending (forEach_body now acc t)
          + submitted (forEach_body now acc t) + rejected (forEach_body now acc t)
          + (if status t = Verified then 1 else 0)
        = completed acc + pending acc + submitted acc + rejected acc + 1"
    by (cases "status t") (auto simp: forEach_body_def Let_def)
  show ?case
    using Cons.IH [of "forEach_body now acc t"] step
    by (simp split: if_splits)
qed

lemma getTaskStats_counters:
  "completed (getTaskStats ts now) + pending (getTaskStats ts now)
     + submitted (getTaskStats ts now) + rejected (getTaskStats ts now)
     + length (filter (\<lambda>x. status x = Verified) ts)
   = total (getTaskStats ts now)"
  unfolding getTaskStats_def
  by (simp add: foldl_forEach_body_counters foldl_forEach_body_total)

lemma count_task_overdue:
  "overdue_tasks (count_task now s t)
     = overdue_tasks s + (if isOverdue t now then 1 else 0)"
  by (cases "status t") (auto simp: count_task_def isOverdue_def Let_def)

text \<open>The sessions query on two tasks of employee 1, both past their due date, one
  submitted and one pending: one session, with one pending and one overdue task.\<close>

lemma hr_onboarding_sessions_example:
  "hr_onboarding_sessions
     [example_task 1 Submitted (Some (civil 2024 1 1)),
      example_task 2 Pending (Some (civil 2024 1 1))]
     (date_ms (Some (civil 2024 6 1)))
   = [\<lparr>session_employee_id = 1, total_tasks = 2, completed_tasks = 0, pending_tasks = 1,
       overdue_tasks = 1, progress_percentage = 0\<rparr>]"
  by (simp add: hr_onboarding_sessions_def reduce_step_def count_task_def set_progress_def
        example_task_def date_ms_def civil_def js_div_def js_times_def fl_def Math_round_def
        Let_def)

text \<open>
  Claim C3, as the code has it. The overdue flag of a task (\<open>isOverdue\<close>) is true
  exactly when its status is pending or rejected and its due date is strictly before
  the current time (a NULL due date is read as the epoch). It is computed from the
  task and the current time at each call: \<open>getTaskStats\<close> counts the tasks whose flag
  is true, and the HR dashboard adds one to \<open>overdue_tasks\<close> for each such task. A
  submitted task is not overdue, whatever its due date.
\<close>

theorem overdue_iff_pending_or_rejected_past_due:
  "(isOverdue t now \<longleftrightarrow> status t \<in> {Pending, Rejected} \<and> date_ms (due_date t) < now)
   \<and> overdue (getTaskStats ts now) = length (filter (\<lambda>x. isOverdue x now) ts)
   \<and> overdue_tasks (count_task now s t) = overdue_tasks s + (if isOverdue t now then 1 else 0)
   \<and> (status t = Submitted \<longrightarrow> \<not> isOverdue t now)"
proof -
  have a: "isOverdue t now \<longleftrightarrow> status t \<in> {Pending, Rejected} \<and> date_ms (due_date t) < now"
    by (auto simp: isOverdue_def)
  have b: "overdue (getTaskStats ts now) = length (filter (\<lambda>x. isOverdue x now) ts)"
    unfolding getTaskStats_def by (simp add: foldl_forEach_body_overdue)
  have c: "status t = Submitted \<longrightarrow> \<not> isOverdue t now"
    by (simp add: isOverdue_def)
  from a b c count_task_overdue show ?thesis by blast
qed

theorem overdue_iff_pending_or_rejected_past_due_witness:
  "status (example_task 1 Submitted (Some (civil 2024 1 1))) = Submitted
   \<and> \<not> isOverdue (example_task 1 Submitted (Some (civil 2024 1 1)))
         (date_ms (Some (civil 2024 6 1)))
   \<and> isOverdue (example_task 2 Rejected (Some (civil 2024 1 1)))
         (date_ms (Some (civil 2024 6 1)))"
  using overdue_iff_pending_or_rejected_past_due
          [of "example_task 1 Submitted (Some (civil 2024 1 1))" "date_ms (Some (civil 2024 6 1))"]
        overdue_iff_pending_or_rejected_past_due
          [of "example_task 2 Rejected (Some (civil 2024 1 1))" "date_ms (Some (civil 2024 6 1))"]
  by (simp add: example_task_def date_ms_def civil_def)

text \<open>
  Claim C3 as the spec states it fails: a task in status submitted that was due on
  2024-01-01 is, on 2024-06-01, not in {completed, verified} and past its due date, and
  its overdue flag is false; \<open>getTaskStats\<close> counts no overdue task.
\<close>

theorem submitted_past_due_is_not_overdue:
  "status (example_task 1 Submitted (Some (civil 2024 1 1))) \<notin> {Completed, Verified}
   \<and> date_ms (due_date (example_task 1 Submitted (Some (civil 2024 1 1))))
       < date_ms (Some (civil 2024 6 1))
   \<and> \<not> isOverdue (example_task 1 Submitted (Some (civil 2024 1 1)))
         (date_ms (Some (civil 2024 6 1)))
   \<and> overdue (getTaskStats [example_task 1 Submitted (Some (civil 2024 1 1))]
                (date_ms (Some (civil 2024 6 1)))) = 0"
  by (simp add: example_task_def date_ms_def civil_def isOverdue_def getTaskStats_def
        forEach_body_def)

text \<open>
  Claim C4 at a failing input: for the list of one task whose status is verified,
  \<open>getTaskStats\<close> returns \<open>total = 1\<close> and leaves the four counters at 0 (the increment
  goes to a key \<open>verified\<close> that the object does not have), so
  \<open>completed + pending + submitted + rejected\<close> is 0, not \<open>total\<close>.
\<close>

theorem getTaskStats_verified_not_counted:
  "total (getTaskStats [example_task 1 Verified None] 0) = 1
   \<and> completed (getTaskStats [example_task 1 Verified None] 0)
     + pending (getTaskStats [example_task 1 Verified None] 0)
     + submitted (getTaskStats [example_task 1 Verified None] 0)
     + rejected (getTaskStats [example_task 1 Verified None] 0) = 0
   \<and> verified_is_NaN (getTaskStats [example_task 1 Verified None] 0)"
  by (simp add: getTaskStats_def forEach_body_def example_task_def)

section \<open>Properties of the progress percentage\<close>

lemma bitlen_Bit0: "bitlen (numeral (Num.Bit0 k)) = bitlen (numeral k) + 1"
  by (subst compute_bitlen) simp

lemma bitlen_Bit1: "bitlen (numeral (Num.Bit1 k)) = bitlen (numeral k) + 1"
  by (subst compute_bitlen) simp

lemma bitlen_One: "bitlen 1 = 1"
  by (subst compute_bitlen) simp

lemma js_div_23_40: "js_div 23 40 = (5179139571476070, - 53)"
  by (simp add: js_div_def fl_def round_ties_even_def Let_def bitlen_Bit0 bitlen_Bit1 bitlen_One)

lemma js_times_100: "js_times (5179139571476070, - 53) 100 = (8092405580431359, - 47)"
  by (simp add: js_times_def fl_def round_ties_even_def Let_def bitlen_Bit0 bitlen_Bit1
        bitlen_One)

lemma Math_round_57: "Math_round (8092405580431359, - 47) = 57"
  by (simp add: Math_round_def)

text \<open>
  The three steps again, without \<open>fl\<close>: the first mantissa has 53 bits and is less
  than one half away from \<open>23 / 40 * 2 ^ 53\<close>, the second has 53 bits and is less than
  one half away from the exact product divided by \<open>2 ^ 6\<close>, and the second double plus
  one half lies between 57 and 58.
\<close>

lemma doubles_of_23_of_40_are_nearest:
  "(2::nat) ^ 52 \<le> 5179139571476070 \<and> (5179139571476070::nat) < 2 ^ 53
   \<and> 2 * \<bar>(5179139571476070::int) * 40 - 23 * 2 ^ 53\<bar> < 40
   \<and> (2::nat) ^ 52 \<le> 8092405580431359 \<and> (8092405580431359::nat) < 2 ^ 53
   \<and> 2 * \<bar>(8092405580431359::int) * 2 ^ 6 - 5179139571476070 * 100\<bar> < 2 ^ 6
   \<and> (57::int) * 2 ^ 48 \<le> 2 * 8092405580431359 + 2 ^ 47
   \<and> 2 * 8092405580431359 + 2 ^ 47 < (58::int) * 2 ^ 48"
  by simp

lemma calculateProgress_empty: "calculateProgress [] = 0"
  by (simp add: calculateProgress_def)

text \<open>
  Claim C5 at a failing input: 40 tasks of which 23 are completed. The quotient
  \<open>23 / 40\<close> is the double \<open>5179139571476070 * 2 ^ -53\<close> (just below 0.575), its product
  with 100 is the double \<open>8092405580431359 * 2 ^ -47\<close> (57.49999999999999...), and
  \<open>Math.round\<close> gives 57, where \<open>round(100 * 23 / 40) = round(57.5)\<close> is 58.
\<close>

theorem calculateProgress_23_of_40:
  "calculateProgress
     (replicate 23 (example_task 1 Completed None) @ replicate 17 (example_task 2 Pending None))
     = 57
   \<and> progress_percentage
       (set_progress
          \<lparr>session_employee_id = 1, total_tasks = 40, completed_tasks = 23, pending_tasks = 17,
           overdue_tasks = 0, progress_percentage = 0\<rparr>)
     = 57
   \<and> progressPercent_spec 23 40 = 58"
  by (simp add: calculateProgress_def example_task_def js_div_23_40 js_times_100 Math_round_57
        progressPercent_spec_def set_progress_def)

section \<open>The progress percentage away from ties\<close>

text \<open>
  \<open>fl a b\<close> is a nearest binary64 value of \<open>a / b\<close>: its mantissa lies between \<open>2 ^ 52\<close>
  and \<open>2 ^ 53\<close> and its distance from the quotient is at most half a unit of the last
  place. Hence the two roundings of \<open>Math.round((c / t) * 100)\<close> move the value by less
  than \<open>2 ^ -45\<close>, and for lists of at most \<open>2 ^ 44\<close> tasks the result is the rounded
  exact percentage unless \<open>100 * c / t\<close> lies exactly halfway between two integers,
  which is the case of claim C5's failing input.
\<close>

lemma round_ties_even_cases:
  "round_ties_even a b = a div b \<and> 2 * (a mod b) \<le> b
   \<or> round_ties_even a b = a div b + 1 \<and> b \<le> 2 * (a mod b)"
  by (auto simp: round_ties_even_def Let_def)

lemma round_ties_even_nearest:
  assumes "0 < b"
  shows "2 * \<bar>real (round_ties_even a b) - real a / real b\<bar> \<le> 1"
proof -
  have ab: "real a = real (a div b) * real b + real (a mod b)"
    by (metis div_mult_mod_eq of_nat_add of_nat_mult)
  have lt: "real (a mod b) < real b"
    using assms by simp
  have quot: "real a / real b = real (a div b) + real (a mod b) / real b"
    using assms by (subst ab) (simp add: field_simps)
  from round_ties_even_cases [of a b] show ?thesis
  proof
    assume h: "round_ties_even a b = a div b \<and> 2 * (a mod b) \<le> b"
    then have "2 * real (a mod b) \<le> real b"
      by (metis of_nat_le_iff of_nat_mult of_nat_numeral)
    then have "2 * (real (a mod b) / real b) \<le> 1"
      using assms by (simp add: field_simps)
    with h quot show ?thesis by simp
  next
    assume h: "round_ties_even a b = a div b + 1 \<and> b \<le> 2 * (a mod b)"
    then have "real b \<le> 2 * real (a mod b)"
      by (metis of_nat_le_iff of_nat_mult of_nat_numeral)
    then have 1: "1 \<le> 2 * (real (a mod b) / real b)"
      using assms by (simp add: field_simps)
    have 2: "real (a mod b) / real b < 1"
      using lt assms by simp
    from h quot 1 2 show ?thesis by simp
  qed
qed

lemma bitlen_real_bounds:
  assumes "0 < a"
  shows "2 powi (bitlen (int a) - 1) \<le> real a" and "real a < 2 powi (bitlen (int a))"
proof -
  from assms have pos: "0 < int a" by simp
  from bitlen_bounds [OF pos]
  have lo: "2 ^ nat (bitlen (int a) - 1) \<le> int a" and hi: "int a < 2 ^ nat (bitlen (int a))"
    by auto
  have ge1: "1 \<le> bitlen (int a)"
    using pos by (auto simp: bitlen_alt_def)
  from lo have "real_of_int (2 ^ nat (bitlen (int a) - 1)) \<le> real_of_int (int a)"
    by (rule of_int_le_iff [THEN iffD2])
  then show "2 powi (bitlen (int a) - 1) \<le> real a"
    using ge1 by (simp add: power_int_nonneg_exp)
  from hi have "real_of_int (int a) < real_of_int (2 ^ nat (bitlen (int a)))"
    by (rule of_int_less_iff [THEN iffD2])
  then show "real a < 2 powi (bitlen (int a))"
    using ge1 by (simp add: power_int_nonneg_exp)
qed

lemma scaled_quotient:
  assumes "0 < b"
  shows "real (a * 2 ^ nat (- e)) / real (b * 2 ^ nat e) = real a / real b * 2 powi (- e)"
proof (cases "0 \<le> e")
  case True
  then have "nat (- e) = 0" by simp
  moreover from True have "(2::real) powi (- e) = 1 / 2 ^ nat e"
    by (simp add: power_int_minus power_int_nonneg_exp field_simps)
  ultimately show ?thesis by simp
next
  case False
  then have "nat e = 0" by simp
  moreover from False have "(2::real) powi (- e) = 2 ^ nat (- e)"
    by (simp add: power_int_nonneg_exp)
  ultimately show ?thesis by simp
qed

lemma scaled_le_iff:
  assumes "0 < b"
  shows "b * 2 ^ nat d \<le> a * 2 ^ nat (- d) \<longleftrightarrow> 2 powi d \<le> real a / real b"
proof -
  have "b * 2 ^ nat d \<le> a * 2 ^ nat (- d)
          \<longleftrightarrow> real (b * 2 ^ nat d) \<le> real (a * 2 ^ nat (- d))"
    by (simp only: of_nat_le_iff)
  also have "\<dots> \<longleftrightarrow> 1 \<le> real (a * 2 ^ nat (- d)) / real (b * 2 ^ nat d)"
    using assms by (simp add: field_simps)
  also have "\<dots> \<longleftrightarrow> 1 \<le> real a / real b * 2 powi (- d)"
    by (simp only: scaled_quotient [OF assms])
  also have "\<dots> \<longleftrightarrow> 2 powi d \<le> real a / real b"
  proof -
    have p: "0 < (2::real) powi d" by simp
    have eq: "real a / real b * 2 powi (- d) = (real a / real b) / 2 powi d"
      by (simp add: power_int_minus divide_inverse)
    show ?thesis
      by (simp only: eq pos_le_divide_eq [OF p] mult_1)
  qed
  finally show ?thesis .
qed

lemma fl_snd:
  "0 < a \<Longrightarrow>
     snd (fl a b)
       = (let d = bitlen (int a) - bitlen (int b)
          in if b * 2 ^ nat d \<le> a * 2 ^ nat (- d) then d - 52 else d - 53)"
  by (simp add: fl_def Let_def)

lemma fl_exponent:
  assumes "0 < a" and "0 < b" and "fl a b = (m, e)"
  shows "2 powi (52 + e) \<le> real a / real b" and "real a / real b < 2 powi (53 + e)"
proof -
  let ?la = "bitlen (int a)" and ?lb = "bitlen (int b)"
  let ?d = "?la - ?lb"
  let ?x = "real a / real b"
  note A = bitlen_real_bounds [OF assms(1)]
  note B = bitlen_real_bounds [OF assms(2)]
  have bpos: "0 < real b" using assms(2) by simp
  have apos: "0 < real a" using assms(1) by simp
  have lower: "2 powi (?d - 1) < ?x"
  proof -
    have "2 powi (?d - 1) * real b < 2 powi (?d - 1) * 2 powi ?lb"
      using B(2) by simp
    also have "\<dots> = 2 powi (?la - 1)"
      by (simp flip: power_int_add)
    also have "\<dots> \<le> real a" by (rule A(1))
    finally show ?thesis using bpos by (simp add: pos_less_divide_eq)
  qed
  have upper: "?x < 2 powi (?d + 1)"
  proof -
    have "real a < 2 powi ?la" by (rule A(2))
    also have "\<dots> = 2 powi (?d + 1) * 2 powi (?lb - 1)"
      by (simp flip: power_int_add)
    also have "\<dots> \<le> 2 powi (?d + 1) * real b"
      using B(1) by simp
    finally show ?thesis using bpos by (simp add: pos_divide_less_eq)
  qed
  have e: "e = (if 2 powi ?d \<le> ?x then ?d - 52 else ?d - 53)"
    using fl_snd [OF assms(1), of b] assms(3)
    unfolding Let_def scaled_le_iff [OF assms(2)] by simp
  show "2 powi (52 + e) \<le> ?x"
  proof (cases "2 powi ?d \<le> ?x")
    case True
    with e have eq: "52 + e = ?d" by simp
    show ?thesis unfolding eq by (rule True)
  next
    case False
    with e have eq: "52 + e = ?d - 1" by simp
    show ?thesis unfolding eq by (rule less_imp_le [OF lower])
  qed
  show "?x < 2 powi (53 + e)"
  proof (cases "2 powi ?d \<le> ?x")
    case True
    with e have eq: "53 + e = ?d + 1" by simp
    show ?thesis unfolding eq by (rule upper)
  next
    case False
    with e have eq: "53 + e = ?d" by simp
    from False show ?thesis unfolding eq by simp
  qed
qed

lemma fl_nearest:
  assumes "0 < a" and "0 < b" and "fl a b = (m, e)"
  shows "2 ^ 52 \<le> m" and "m \<le> 2 ^ 53"
    and "\<bar>real m * 2 powi e - real a / real b\<bar> \<le> 2 powi (e - 1)"
proof -
  let ?A = "a * 2 ^ nat (- e)" and ?B = "b * 2 ^ nat e"
  let ?x = "real a / real b"
  have Bpos: "0 < ?B" using assms(2) by simp
  have m: "m = round_ties_even ?A ?B"
    using assms(1,3) by (auto simp: fl_def Let_def)
  have q: "real ?A / real ?B = ?x * 2 powi (- e)"
    by (rule scaled_quotient [OF assms(2)])
  note near = round_ties_even_nearest [OF Bpos, of ?A, folded m, unfolded q]
  note ex = fl_exponent [OF assms]
  have p: "0 < (2::real) powi e" by simp
  have lo: "2 ^ 52 \<le> ?x * 2 powi (- e)"
  proof -
    have "(2::real) ^ 52 = 2 powi (52 + e) * 2 powi (- e)"
      by (simp flip: power_int_add)
    also have "\<dots> \<le> ?x * 2 powi (- e)"
      by (rule mult_right_mono [OF ex(1)]) simp
    finally show ?thesis .
  qed
  have hi: "?x * 2 powi (- e) < 2 ^ 53"
  proof -
    have "?x * 2 powi (- e) < 2 powi (53 + e) * 2 powi (- e)"
      by (rule mult_strict_right_mono [OF ex(2)]) simp
    also have "\<dots> = 2 ^ 53"
      by (simp flip: power_int_add)
    finally show ?thesis .
  qed
  define y where "y = ?x * 2 powi (- e)"
  define c52 where "c52 = (2::real) ^ 52"
  define c53 where "c53 = (2::real) ^ 53"
  have near': "2 * \<bar>real m - y\<bar> \<le> 1" using near unfolding y_def .
  have lo': "c52 \<le> y" using lo unfolding y_def c52_def .
  have hi': "y < c53" using hi unfolding y_def c53_def .
  from near' have h: "\<bar>real m - y\<bar> \<le> 1 / 2" by simp
  have b2: "real m - y \<le> 1 / 2" by (rule abs_le_D1 [OF h])
  have b1: "y - real m \<le> 1 / 2" using abs_le_D2 [OF h] by simp
  from b1 lo' have "c52 - 1 / 2 \<le> real m" by simp
  then have "real (2 ^ 52 - 1) < real m" unfolding c52_def by simp
  then have "2 ^ 52 - 1 < m" by (simp only: of_nat_less_iff)
  then show "2 ^ 52 \<le> m" by simp
  from b2 hi' have "real m < c53 + 1 / 2" by simp
  then have "real m < real (2 ^ 53 + 1)" unfolding c53_def by simp
  then have "m < 2 ^ 53 + 1" by (simp only: of_nat_less_iff)
  then show "m \<le> 2 ^ 53" by simp
  have "\<bar>real m * 2 powi e - ?x\<bar> = \<bar>real m - ?x * 2 powi (- e)\<bar> * 2 powi e"
  proof -
    have pq: "(2::real) powi (- e) * 2 powi e = 1"
      by (simp add: power_int_minus)
    have "(real m - ?x * 2 powi (- e)) * 2 powi e
            = real m * 2 powi e - ?x * (2 powi (- e) * 2 powi e)"
      by (simp only: left_diff_distrib mult.assoc)
    also have "\<dots> = real m * 2 powi e - ?x"
      by (simp only: pq mult_1_right)
    finally have "real m * 2 powi e - ?x = (real m - ?x * 2 powi (- e)) * 2 powi e"
      by (rule sym)
    then have "\<bar>real m * 2 powi e - ?x\<bar>
                 = \<bar>real m - ?x * 2 powi (- e)\<bar> * \<bar>(2::real) powi e\<bar>"
      by (simp only: abs_mult)
    also have "\<bar>(2::real) powi e\<bar> = 2 powi e"
      using p by (rule abs_of_pos)
    finally show ?thesis .
  qed
  also have "\<dots> \<le> 1 / 2 * 2 powi e"
    using near p by (intro mult_right_mono) auto
  also have "\<dots> = 2 powi (e - 1)"
    by (simp add: power_int_diff)
  finally show "\<bar>real m * 2 powi e - ?x\<bar> \<le> 2 powi (e - 1)" .
qed


lemma Math_round_floor:
  "int (Math_round (m, e)) = \<lfloor>real m * 2 powi e + 1 / 2\<rfloor>"
proof -
  let ?P = "(2::nat) ^ nat e" and ?Q = "(2::nat) ^ nat (- e)"
  have "real (2 * m * ?P + ?Q) / real (2 * ?Q) = real m * 2 powi e + 1 / 2"
  proof (cases "0 \<le> e")
    case True
    then have "nat (- e) = 0" by simp
    moreover from True have "(2::real) powi e = 2 ^ nat e"
      by (simp add: power_int_nonneg_exp)
    ultimately show ?thesis by (simp add: field_simps)
  next
    case False
    then have "nat e = 0" by simp
    moreover from False have "(2::real) powi e = 1 / 2 ^ nat (- e)"
      using power_int_minus_divide [of "2::real" "- e"] by (simp add: power_int_nonneg_exp)
    ultimately show ?thesis by (simp add: field_simps)
  qed
  then have "\<lfloor>real m * 2 powi e + 1 / 2\<rfloor> = \<lfloor>real (2 * m * ?P + ?Q) / real (2 * ?Q)\<rfloor>"
    by simp
  also have "\<dots> = int ((2 * m * ?P + ?Q) div (2 * ?Q))"
    by (rule floor_divide_of_nat_eq)
  finally show ?thesis by (simp add: Math_round_def)
qed

lemma fl_relative_error:
  assumes "0 < a" and "0 < b" and "fl a b = (m, e)"
  shows "\<bar>real m * 2 powi e - real a / real b\<bar> \<le> real a / real b * 2 powi (- 53)"
proof -
  have "\<bar>real m * 2 powi e - real a / real b\<bar> \<le> 2 powi (e - 1)"
    by (rule fl_nearest(3) [OF assms])
  also have "2 powi (e - 1) = 2 powi (52 + e) * (2::real) powi (- 53)"
  proof -
    have "(2::real) powi (52 + e) * 2 powi (- 53) = 2 powi ((52 + e) + (- 53))"
      by (rule power_int_add [symmetric]) simp
    also have "(52 + e) + (- 53) = e - 1" by simp
    finally show ?thesis by (rule sym)
  qed
  also have "\<dots> \<le> real a / real b * 2 powi (- 53)"
    by (rule mult_right_mono [OF fl_exponent(1) [OF assms]]) simp
  finally show ?thesis .
qed


lemma scaled_product:
  "real (a * 2 ^ nat e) / real (2 ^ nat (- e)) = real a * 2 powi e"
proof (cases "0 \<le> e")
  case True
  then have "nat (- e) = 0" by simp
  moreover from True have "(2::real) powi e = 2 ^ nat e"
    by (simp add: power_int_nonneg_exp)
  ultimately show ?thesis by simp
next
  case False
  then have "nat e = 0" by simp
  moreover from False have "(2::real) powi e = 1 / 2 ^ nat (- e)"
    using power_int_minus_divide [of "2::real" "- e"] by (simp add: power_int_nonneg_exp)
  ultimately show ?thesis by simp
qed

lemma progress_error:
  assumes "0 < c" and "c \<le> t"
  shows "\<exists>m e. js_times (js_div c t) 100 = (m, e)
           \<and> \<bar>real m * 2 powi e - 100 * (real c / real t)\<bar> \<le> 201 * 2 powi (- 53)"
proof -
  from assms have tpos: "0 < t" by simp
  obtain m1 e1 where f1: "fl c t = (m1, e1)" by (cases "fl c t")
  define x where "x = real c / real t"
  define u where "u = (2::real) powi (- 53)"
  define y1 where "y1 = real m1 * 2 powi e1"
  have upos: "0 \<le> u" by (simp add: u_def)
  have usmall: "100 * u \<le> 1" by (simp add: u_def)
  have xpos: "0 \<le> x" by (simp add: x_def)
  have xle: "x \<le> 1" using assms tpos by (simp add: x_def)
  have r1: "\<bar>y1 - x\<bar> \<le> x * u"
    using fl_relative_error [OF assms(1) tpos f1] by (simp add: x_def u_def y1_def)
  have xu: "x * u \<le> u"
    using mult_right_mono [OF xle upos] by simp
  from r1 have y1_hi: "y1 - x \<le> x * u" by (rule abs_le_D1 [OF _])
  have y1le: "y1 \<le> 1 + u" using y1_hi xu xle by simp
  have m1pos: "0 < m1"
    using fl_nearest(1) [OF assms(1) tpos f1] by (cases "m1 = 0") simp_all
  have y1pos: "0 \<le> y1" by (simp add: y1_def)
  let ?A = "m1 * 100 * 2 ^ nat e1" and ?B = "(2::nat) ^ nat (- e1)"
  have Apos: "0 < ?A" using m1pos by simp
  have Bpos: "0 < ?B" by simp
  obtain m2 e2 where f2: "fl ?A ?B = (m2, e2)" by (cases "fl ?A ?B")
  define y2 where "y2 = real m2 * 2 powi e2"
  have call: "js_times (js_div c t) 100 = (m2, e2)"
    by (simp add: js_times_def js_div_def f1 f2)
  have q: "real ?A / real ?B = 100 * y1"
    using scaled_product [of "m1 * 100" e1] by (simp add: y1_def)
  have r2: "\<bar>y2 - 100 * y1\<bar> \<le> 100 * y1 * u"
    using fl_relative_error [OF Apos Bpos f2] unfolding q by (simp add: y2_def u_def)
  define a1 where "a1 = y1 * u"
  define a2 where "a2 = u * u"
  have c1: "a1 \<le> u + a2"
  proof -
    have "y1 * u \<le> (1 + u) * u" by (rule mult_right_mono [OF y1le upos])
    also have "(1 + u) * u = u + u * u" by (simp only: distrib_right mult_1)
    finally show ?thesis unfolding a1_def a2_def .
  qed
  have c2: "100 * a2 \<le> u"
  proof -
    have "100 * u * u \<le> 1 * u" by (rule mult_right_mono [OF usmall upos])
    then show ?thesis unfolding a2_def by (simp only: mult.assoc mult_1)
  qed
  have r2': "\<bar>y2 - 100 * y1\<bar> \<le> 100 * a1"
    using r2 unfolding a1_def by (simp only: mult.assoc)
  from r2' have d1: "y2 - 100 * y1 \<le> 100 * a1" and d2: "- (y2 - 100 * y1) \<le> 100 * a1"
    by (rule abs_le_D1, rule abs_le_D2)
  from r1 have d3: "y1 - x \<le> x * u" and d4: "- (y1 - x) \<le> x * u"
    by (rule abs_le_D1, rule abs_le_D2)
  have e1: "y2 - 100 * x \<le> 201 * u"
    using d1 d3 c1 c2 xu by linarith
  have e2: "- (y2 - 100 * x) \<le> 201 * u"
    using d2 d4 c1 c2 xu by linarith
  from e1 e2 have "\<bar>y2 - 100 * x\<bar> \<le> 201 * u"
    by (rule abs_leI)
  with call show ?thesis
    unfolding y2_def x_def u_def by blast
qed


lemma floor_stable:
  fixes N D :: nat and z :: real
  assumes "0 < D" and "N mod D \<noteq> 0" and "\<bar>z - real N / real D\<bar> < 1 / real D"
  shows "\<lfloor>z\<rfloor> = int (N div D)"
proof -
  define k where "k = N div D"
  define r where "r = N mod D"
  have N: "real N = real k * real D + real r"
    unfolding k_def r_def by (metis div_mult_mod_eq of_nat_add of_nat_mult)
  have Dpos: "0 < real D" using assms(1) by simp
  have quot: "real N / real D = real k + real r / real D"
    using Dpos by (subst N) (simp add: field_simps)
  have "1 \<le> r" using assms(2) unfolding r_def by simp
  then have r1: "1 \<le> real r" by simp
  have "r < D" unfolding r_def using assms(1) by simp
  then have "r + 1 \<le> D" by simp
  then have "real (r + 1) \<le> real D" by (simp only: of_nat_le_iff)
  then have r2: "real r + 1 \<le> real D" by simp
  have lo: "1 / real D \<le> real r / real D"
    using r1 Dpos by (simp add: divide_right_mono)
  have hi: "real r / real D + 1 / real D \<le> 1"
  proof -
    have "real r / real D + 1 / real D = (real r + 1) / real D"
      by (simp add: add_divide_distrib)
    also have "\<dots> \<le> 1" using r2 Dpos by simp
    finally show ?thesis .
  qed
  from assms(3) have d1: "z - real N / real D < 1 / real D"
    and d2: "- (z - real N / real D) < 1 / real D"
    by (simp_all add: abs_less_iff)
  have "real k \<le> z" using d2 quot lo by linarith
  moreover have "z < real k + 1" using d1 quot hi by linarith
  ultimately have "\<lfloor>z\<rfloor> = int k"
    by (intro floor_unique) simp_all
  then show ?thesis unfolding k_def .
qed

lemma progress_exact_except_ties:
  assumes "0 < t" and "c \<le> t" and "t \<le> 2 ^ 44" and "(200 * c + t) mod (2 * t) \<noteq> 0"
  shows "Math_round (js_times (js_div c t) 100) = (200 * c + t) div (2 * t)"
proof (cases "c = 0")
  case True
  have "Math_round (js_times (js_div 0 t) 100) = 0"
    by (simp add: js_div_def js_times_def fl_def Math_round_def)
  moreover have "(200 * 0 + t) div (2 * t) = 0"
    using assms(1) by simp
  ultimately show ?thesis using True by simp
next
  case False
  then have cpos: "0 < c" by simp
  from progress_error [OF cpos assms(2)] obtain m e
    where call: "js_times (js_div c t) 100 = (m, e)"
      and err: "\<bar>real m * 2 powi e - 100 * (real c / real t)\<bar> \<le> 201 * 2 powi (- 53)"
    by blast
  let ?N = "200 * c + t" and ?D = "2 * t"
  define z where "z = real m * 2 powi e + 1 / 2"
  have tpos: "0 < real t" using assms(1) by simp
  have quot: "real ?N / real ?D = 100 * (real c / real t) + 1 / 2"
    using tpos by (simp add: field_simps)
  have "real ?D \<le> 2 ^ 45"
  proof -
    from assms(3) have "real t \<le> real (2 ^ 44)" by (simp only: of_nat_le_iff)
    then show ?thesis by simp
  qed
  then have "1 / (2::real) ^ 45 \<le> 1 / real ?D"
    using tpos by (intro divide_left_mono) simp_all
  moreover have "201 * (2::real) powi (- 53) < 1 / 2 ^ 45"
    by simp
  ultimately have small: "201 * (2::real) powi (- 53) < 1 / real ?D"
    by linarith
  have "\<bar>z - real ?N / real ?D\<bar> = \<bar>real m * 2 powi e - 100 * (real c / real t)\<bar>"
    unfolding z_def quot by simp
  with err small have close: "\<bar>z - real ?N / real ?D\<bar> < 1 / real ?D"
    by linarith
  have Dpos: "0 < ?D" using assms(1) by simp
  from floor_stable [OF Dpos assms(4) close]
  have "\<lfloor>z\<rfloor> = int (?N div ?D)" .
  moreover have "int (Math_round (m, e)) = \<lfloor>z\<rfloor>"
    unfolding z_def by (rule Math_round_floor)
  ultimately have "int (Math_round (m, e)) = int (?N div ?D)" by simp
  then have "Math_round (m, e) = ?N div ?D" by (simp only: of_nat_eq_iff)
  with call show ?thesis by simp
qed

lemma calculateProgress_exact_except_ties:
  assumes "length ts \<le> 2 ^ 44"
    and "ts \<noteq> [] \<Longrightarrow>
           (200 * length (filter (\<lambda>x. status x = Completed \<or> status x = Verified) ts)
              + length ts) mod (2 * length ts) \<noteq> 0"
  shows "calculateProgress ts
           = progressPercent_spec
               (length (filter (\<lambda>x. status x = Completed \<or> status x = Verified) ts))
               (length ts)"
proof (cases "ts = []")
  case True
  then show ?thesis by (simp add: calculateProgress_def progressPercent_spec_def)
next
  case False
  then have pos: "0 < length ts" by simp
  have le: "length (filter (\<lambda>x. status x = Completed \<or> status x = Verified) ts) \<le> length ts"
    by (rule length_filter_le)
  from progress_exact_except_ties [OF pos le assms(1) assms(2) [OF False]] False
  show ?thesis by (simp add: calculateProgress_def progressPercent_spec_def Let_def)
qed

section \<open>Properties of the access guard\<close>

lemma find_SomeD: "find P xs = Some x \<Longrightarrow> x \<in> set xs \<and> P x"
  by (induction xs) (auto split: if_splits)

lemma hasPermission_granted:
  assumes "hasPermission ps res action"
  shows "\<exists>r \<in> set ps. resource r = res \<and> requested_flag action r = Some True"
proof -
  from assms obtain r where found: "find (\<lambda>p. resource p = res) ps = Some r"
    by (auto simp: hasPermission_def split: option.splits)
  with assms have "requested_flag action r = Some True"
    by (auto simp: hasPermission_def requested_flag_def js_boolean_def
             split: if_splits option.splits)
  with find_SomeD [OF found] show ?thesis by blast
qed

lemma requested_flag_SomeD:
  "requested_flag action r = Some b
     \<Longrightarrow> action \<in> {''create'', ''read'', ''update'', ''delete''}"
  by (auto simp: requested_flag_def split: if_splits)

lemma fetchPermissions_set:
  "r \<in> set (fetchPermissions tbl pr) \<longleftrightarrow> r \<in> set tbl \<and> Some (perm_role r) = pr"
  by (cases pr) (auto simp: fetchPermissions_def)

lemma user_has_permission_granted:
  assumes "user_has_permission profs tbl uid res action"
  shows "\<exists>p \<in> set profs. user_id p = uid
           \<and> (\<exists>r \<in> set tbl. perm_role r = role p \<and> resource r = res
                 \<and> requested_flag action r = Some True)"
proof -
  let ?user_role = "map_option role (find (\<lambda>p. user_id p = uid) profs)"
  from assms obtain r
    where found: "find (\<lambda>r. Some (perm_role r) = ?user_role \<and> resource r = res) tbl = Some r"
    by (auto simp: user_has_permission_def Let_def split: option.splits)
  from find_SomeD [OF found]
  have r: "r \<in> set tbl" "Some (perm_role r) = ?user_role" "resource r = res"
    by auto
  from r(2) obtain p where p: "find (\<lambda>p. user_id p = uid) profs = Some p" "role p = perm_role r"
    by (cases "find (\<lambda>p. user_id p = uid) profs") auto
  from assms found have "requested_flag action r = Some True"
    by (auto simp: user_has_permission_def requested_flag_def Let_def
             split: if_splits option.splits)
  with r p find_SomeD [OF p(1)] show ?thesis by (intro bexI [of _ p] conjI bexI [of _ r]) auto
qed

text \<open>
  Claim C9. \<open>hasPermission\<close>, on the rows fetched for the caller's role, and the SQL
  function \<open>user_has_permission\<close> return false when the matrix has no row for the role
  and the resource, and false for every action other than create, read, update and
  delete; when they return true, the matrix has a row for the role and the resource
  whose flag for the requested action is true.
\<close>

theorem access_guard_is_whitelist:
  "((\<forall>r \<in> set tbl. \<not> (Some (perm_role r) = pr \<and> resource r = res))
      \<longrightarrow> \<not> hasPermission (fetchPermissions tbl pr) res action)
   \<and> (action \<notin> {''create'', ''read'', ''update'', ''delete''}
      \<longrightarrow> \<not> hasPermission (fetchPermissions tbl pr) res action)
   \<and> (hasPermission (fetchPermissions tbl pr) res action
      \<longrightarrow> (\<exists>r \<in> set tbl. Some (perm_role r) = pr \<and> resource r = res
             \<and> requested_flag action r = Some True))
   \<and> ((\<forall>p \<in> set profs. \<forall>r \<in> set tbl.
          \<not> (user_id p = uid \<and> perm_role r = role p \<and> resource r = res))
      \<longrightarrow> \<not> user_has_permission profs tbl uid res action)
   \<and> (action \<notin> {''create'', ''read'', ''update'', ''delete''}
      \<longrightarrow> \<not> user_has_permission profs tbl uid res action)
   \<and> (user_has_permission profs tbl uid res action
      \<longrightarrow> (\<exists>p \<in> set profs. user_id p = uid
             \<and> (\<exists>r \<in> set tbl. perm_role r = role p \<and> resource r = res
                   \<and> requested_flag action r = Some True)))"
proof -
  have h: "\<exists>r \<in> set tbl. Some (perm_role r) = pr \<and> resource r = res
             \<and> requested_flag action r = Some True"
    if "hasPermission (fetchPermissions tbl pr) res action"
    using hasPermission_granted [OF that] by (auto simp: fetchPermissions_set)
  have u: "\<exists>p \<in> set profs. user_id p = uid
             \<and> (\<exists>r \<in> set tbl. perm_role r = role p \<and> resource r = res
                   \<and> requested_flag action r = Some True)"
    if "user_has_permission profs tbl uid res action"
    using user_has_permission_granted [OF that] .
  have h1: "\<not> hasPermission (fetchPermissions tbl pr) res action"
    if "\<forall>r \<in> set tbl. \<not> (Some (perm_role r) = pr \<and> resource r = res)"
    using h that by blast
  have h2: "\<not> hasPermission (fetchPermissions tbl pr) res action"
    if "action \<notin> {''create'', ''read'', ''update'', ''delete''}"
    using h that requested_flag_SomeD by blast
  have u1: "\<not> user_has_permission profs tbl uid res action"
    if "\<forall>p \<in> set profs. \<forall>r \<in> set tbl.
          \<not> (user_id p = uid \<and> perm_role r = role p \<and> resource r = res)"
    using u that by blast
  have u2: "\<not> user_has_permission profs tbl uid res action"
    if "action \<notin> {''create'', ''read'', ''update'', ''delete''}"
    using u that requested_flag_SomeD by blast
  from h h1 h2 u u1 u2 show ?thesis by blast
qed

text \<open>
  The theorem on the migration's matrix: a manager has no row for
  \<open>onboarding_checklist\<close>, \<open>approve\<close> is not one of the four actions, and the admin's
  right to create users comes from the row \<open>('admin', 'users', true, true, true, true)\<close>.
\<close>

theorem access_guard_is_whitelist_witness:
  "filter (\<lambda>r. Some (perm_role r) = Some Manager \<and> resource r = ''onboarding_checklist'')
     default_role_permissions = []
   \<and> \<not> hasPermission (fetchPermissions default_role_permissions (Some Manager))
         ''onboarding_checklist'' ''update''
   \<and> ''approve'' \<notin> {''create'', ''read'', ''update'', ''delete''}
   \<and> \<not> hasPermission (fetchPermissions default_role_permissions (Some Admin))
         ''users'' ''approve''
   \<and> \<not> user_has_permission [\<lparr>user_id = 7, role = Admin\<rparr>] default_role_permissions 7
         ''users'' ''approve''
   \<and> hasPermission (fetchPermissions default_role_permissions (Some Admin)) ''users'' ''create''
   \<and> user_has_permission [\<lparr>user_id = 7, role = Admin\<rparr>] default_role_permissions 7
         ''users'' ''create''
   \<and> (\<exists>r \<in> set default_role_permissions. Some (perm_role r) = Some Admin
          \<and> resource r = ''users'' \<and> requested_flag ''create'' r = Some True)"
proof -
  have absent: "\<forall>r \<in> set default_role_permissions.
       \<not> (Some (perm_role r) = Some Manager \<and> resource r = ''onboarding_checklist'')"
    by (simp add: default_role_permissions_def perm_def)
  have other: "''approve'' \<notin> {''create'', ''read'', ''update'', ''delete''}"
    by simp
  have granted: "hasPermission (fetchPermissions default_role_permissions (Some Admin))
                   ''users'' ''create''"
    by (simp add: hasPermission_def fetchPermissions_def default_role_permissions_def perm_def
          js_boolean_def)
  have granted_sql: "user_has_permission [\<lparr>user_id = 7, role = Admin\<rparr>]
                       default_role_permissions 7 ''users'' ''create''"
    by (simp add: user_has_permission_def default_role_permissions_def perm_def)
  note manager = access_guard_is_whitelist
      [of default_role_permissions "Some Manager" "''onboarding_checklist''" "''update''"
          "[]" 0]
  note approve = access_guard_is_whitelist
      [of default_role_permissions "Some Admin" "''users''" "''approve''"
          "[\<lparr>user_id = 7, role = Admin\<rparr>]" 7]
  note create = access_guard_is_whitelist
      [of default_role_permissions "Some Admin" "''users''" "''create''"
          "[\<lparr>user_id = 7, role = Admin\<rparr>]" 7]
  from manager absent
  have 1: "\<not> hasPermission (fetchPermissions default_role_permissions (Some Manager))
              ''onboarding_checklist'' ''update''"
    by blast
  from approve other
  have 2: "\<not> hasPermission (fetchPermissions default_role_permissions (Some Admin))
              ''users'' ''approve''"
    and 3: "\<not> user_has_permission [\<lparr>user_id = 7, role = Admin\<rparr>] default_role_permissions 7
              ''users'' ''approve''"
    by blast+
  from create granted
  have 4: "\<exists>r \<in> set default_role_permissions. Some (perm_role r) = Some Admin
             \<and> resource r = ''users'' \<and> requested_flag ''create'' r = Some True"
    by blast
  have absent': "filter (\<lambda>r. Some (perm_role r) = Some Manager
                            \<and> resource r = ''onboarding_checklist'')
                   default_role_permissions = []"
    using absent by (simp add: filter_empty_conv)
  from absent' 1 other 2 3 granted granted_sql 4 show ?thesis by blast
qed

section \<open>Properties of the status updates\<close>

lemma task_id_apply_update [simp]: "task_id (apply_update u t) = task_id t"
  by (simp add: apply_update_def)

lemma status_apply_update [simp]: "status (apply_update u t) = new_status u"
  by (simp add: apply_update_def)

lemma filter_updated_rows:
  "filter (\<lambda>t. task_id t = i) (map (\<lambda>t. if task_id t = i then apply_update u t else t) xs)
     = map (apply_update u) (filter (\<lambda>t. task_id t = i) xs)"
  by (induction xs) simp_all

lemma filter_other_rows:
  "filter (\<lambda>t. task_id t \<noteq> i) (map (\<lambda>t. if task_id t = i then apply_update u t else t) xs)
     = filter (\<lambda>t. task_id t \<noteq> i) xs"
  by (induction xs) simp_all

lemma update_rows_denied:
  "\<not> admins_and_hr_can_manage db uid \<Longrightarrow> update_rows db uid u i = ([], db)"
  by (simp add: update_rows_def)

lemma update_rows_table:
  "admins_and_hr_can_manage db uid \<Longrightarrow>
     filter (\<lambda>t. task_id t = i) (onboarding_checklist (snd (update_rows db uid u i)))
       = map (apply_update u) (filter (\<lambda>t. task_id t = i) (onboarding_checklist db))"
  by (simp add: update_rows_def filter_updated_rows)

lemma update_rows_others:
  "filter (\<lambda>t. task_id t \<noteq> i) (onboarding_checklist (snd (update_rows db uid u i)))
     = filter (\<lambda>t. task_id t \<noteq> i) (onboarding_checklist db)"
  by (simp add: update_rows_def filter_other_rows)

lemma update_rows_profiles [simp]:
  "profiles (snd (update_rows db uid u i)) = profiles db"
  by (simp add: update_rows_def)

lemma admins_and_hr_can_manage_cong:
  "profiles db' = profiles db
     \<Longrightarrow> admins_and_hr_can_manage db' uid = admins_and_hr_can_manage db uid"
  by (simp add: admins_and_hr_can_manage_def)

text \<open>
  The request of \<open>updateTaskStatus\<close> is refused for every caller, every task and every
  status: its payload has the key \<open>updated_at\<close>, and the table has no such column.
\<close>

lemma updateTaskStatus_refused:
  "updateTaskStatus db uid now i st doc reason = (Inl PGRST204, db)"
  by (simp add: updateTaskStatus_def update_eq_id_def Let_def)

lemma updateTaskMutation_eq:
  "status_of_string stext = Some st \<Longrightarrow>
   updateTaskMutation db uid i stext doc
     = (Inr (),
        snd (update_rows db uid
               \<lparr>new_status = st, new_updated_at = None, new_document_url = truthy doc,
                new_rejection_reason = None, new_verified_at = None\<rparr> i))"
  by (simp add: updateTaskMutation_def update_eq_id_def Let_def split: prod.splits)

lemma verifyTaskMutation_eq:
  "verifyTaskMutation db uid now i rs reason
     = (Inr (),
        snd (update_rows db uid
               \<lparr>new_status = task_status_of rs, new_updated_at = None,
                new_document_url = None, new_rejection_reason = truthy reason,
                new_verified_at = Some now\<rparr> i))"
  by (simp add: verifyTaskMutation_def update_eq_id_def Let_def split: prod.splits)

lemma status_of_string_total:
  "\<exists>stext. status_of_string stext = Some st"
proof (cases st)
  case Pending
  have "status_of_string ''pending'' = Some Pending" by (simp add: status_of_string_def)
  with Pending show ?thesis by blast
next
  case Submitted
  have "status_of_string ''submitted'' = Some Submitted" by (simp add: status_of_string_def)
  with Submitted show ?thesis by blast
next
  case Verified
  have "status_of_string ''verified'' = Some Verified" by (simp add: status_of_string_def)
  with Verified show ?thesis by blast
next
  case Completed
  have "status_of_string ''completed'' = Some Completed" by (simp add: status_of_string_def)
  with Completed show ?thesis by blast
next
  case Rejected
  have "status_of_string ''rejected'' = Some Rejected" by (simp add: status_of_string_def)
  with Rejected show ?thesis by blast
qed

text \<open>
  Claim C1, as the code has it. No status change is checked against the current
  status, and no error names a pair of statuses. For a caller whom the row-level
  policy admits (role admin or hr) and a task id that one row has,
  \<open>updateTaskMutation\<close> reports success for the text of each of the five statuses,
  whatever the current status of the row (verified and completed included), and the
  row has the requested status afterwards; \<open>verifyTaskMutation\<close> does the same for
  verified and rejected. The other rows stay as they are.
\<close>

theorem status_update_ignores_current_status:
  assumes "admins_and_hr_can_manage db uid"
    and "filter (\<lambda>t. task_id t = i) (onboarding_checklist db) = [t0]"
  shows "(\<exists>stext. status_of_string stext = Some st)
         \<and> (\<forall>stext. status_of_string stext = Some st \<longrightarrow>
               fst (updateTaskMutation db uid i stext doc) = Inr ()
               \<and> map status
                    (filter (\<lambda>t. task_id t = i)
                       (onboarding_checklist (snd (updateTaskMutation db uid i stext doc))))
                  = [st]
               \<and> filter (\<lambda>t. task_id t \<noteq> i)
                    (onboarding_checklist (snd (updateTaskMutation db uid i stext doc)))
                  = filter (\<lambda>t. task_id t \<noteq> i) (onboarding_checklist db))
         \<and> fst (verifyTaskMutation db uid now i rs reason) = Inr ()
         \<and> map status
              (filter (\<lambda>t. task_id t = i)
                 (onboarding_checklist (snd (verifyTaskMutation db uid now i rs reason))))
            = [task_status_of rs]
         \<and> filter (\<lambda>t. task_id t \<noteq> i)
              (onboarding_checklist (snd (verifyTaskMutation db uid now i rs reason)))
            = filter (\<lambda>t. task_id t \<noteq> i) (onboarding_checklist db)"
proof (intro conjI allI impI)
  show "\<exists>stext. status_of_string stext = Some st"
    by (rule status_of_string_total)
next
  fix stext
  assume stext: "status_of_string stext = Some st"
  let ?v = "\<lparr>new_status = st, new_updated_at = None,
             new_document_url = truthy doc, new_rejection_reason = None,
             new_verified_at = None\<rparr>"
  note m = updateTaskMutation_eq [OF stext, of db uid i doc]
  show "fst (updateTaskMutation db uid i stext doc) = Inr ()"
    by (simp add: m)
  show "map status
          (filter (\<lambda>t. task_id t = i)
             (onboarding_checklist (snd (updateTaskMutation db uid i stext doc))))
        = [st]"
    using update_rows_table [OF assms(1), of i ?v] assms(2) by (simp add: m)
  show "filter (\<lambda>t. task_id t \<noteq> i)
          (onboarding_checklist (snd (updateTaskMutation db uid i stext doc)))
        = filter (\<lambda>t. task_id t \<noteq> i) (onboarding_checklist db)"
    by (simp add: m update_rows_others)
next
  let ?w = "\<lparr>new_status = task_status_of rs, new_updated_at = None,
             new_document_url = None, new_rejection_reason = truthy reason,
             new_verified_at = Some now\<rparr>"
  note v = verifyTaskMutation_eq [of db uid now i rs reason]
  show "fst (verifyTaskMutation db uid now i rs reason) = Inr ()"
    by (simp add: v)
  show "map status
          (filter (\<lambda>t. task_id t = i)
             (onboarding_checklist (snd (verifyTaskMutation db uid now i rs reason))))
        = [task_status_of rs]"
    using update_rows_table [OF assms(1), of i ?w] assms(2) by (simp add: v)
  show "filter (\<lambda>t. task_id t \<noteq> i)
          (onboarding_checklist (snd (verifyTaskMutation db uid now i rs reason)))
        = filter (\<lambda>t. task_id t \<noteq> i) (onboarding_checklist db)"
    by (simp add: v update_rows_others)
qed

lemmas example_eval =
  example_db_def example_task_def default_onboarding_template_def blueprint_def civil_def
  admins_and_hr_can_manage_def update_eq_id_def update_rows_def apply_update_def
  set_column_def truthy_def status_of_string_def status_and_reason_def

theorem status_update_ignores_current_status_witness:
  "admins_and_hr_can_manage (example_db Verified) (Some 7)
   \<and> filter (\<lambda>t. task_id t = 1) (onboarding_checklist (example_db Verified))
       = [example_task 1 Verified (Some (civil 2024 1 13))]
   \<and> status_of_string ''pending'' = Some Pending
   \<and> fst (updateTaskMutation (example_db Verified) (Some 7) 1 ''pending'' None) = Inr ()
   \<and> map status
        (filter (\<lambda>t. task_id t = 1)
           (onboarding_checklist
              (snd (updateTaskMutation (example_db Verified) (Some 7) 1 ''pending'' None))))
      = [Pending]
   \<and> fst (verifyTaskMutation (example_db Verified) (Some 7) 0 1 ReviewRejected None) = Inr ()
   \<and> map status
        (filter (\<lambda>t. task_id t = 1)
           (onboarding_checklist
              (snd (verifyTaskMutation (example_db Verified) (Some 7) 0 1 ReviewRejected None))))
      = [Rejected]"
proof -
  have h1: "admins_and_hr_can_manage (example_db Verified) (Some 7)"
    by (simp add: example_eval)
  have h2: "filter (\<lambda>t. task_id t = 1) (onboarding_checklist (example_db Verified))
              = [example_task 1 Verified (Some (civil 2024 1 13))]"
    by (simp add: example_eval)
  have h3: "status_of_string ''pending'' = Some Pending"
    by (simp add: status_of_string_def)
  have h4: "task_status_of ReviewRejected = Rejected"
    by simp
  from status_update_ignores_current_status
         [OF h1 h2, where st = Pending and doc = None and now = 0 and rs = ReviewRejected
            and reason = None] h3
  have "fst (updateTaskMutation (example_db Verified) (Some 7) 1 ''pending'' None) = Inr ()
        \<and> map status
             (filter (\<lambda>t. task_id t = 1)
                (onboarding_checklist
                   (snd (updateTaskMutation (example_db Verified) (Some 7) 1 ''pending'' None))))
           = [Pending]
        \<and> fst (verifyTaskMutation (example_db Verified) (Some 7) 0 1 ReviewRejected None) = Inr ()
        \<and> map status
             (filter (\<lambda>t. task_id t = 1)
                (onboarding_checklist
                   (snd (verifyTaskMutation (example_db Verified) (Some 7) 0 1 ReviewRejected
                           None))))
           = [task_status_of ReviewRejected]"
    by blast
  with h1 h2 h3 h4 show ?thesis by simp
qed

text \<open>
  Claim C1 as the spec states it fails: the HR user sets the verified task 1 back to
  pending with \<open>updateTaskMutation\<close>, and rejects the completed task 1 with
  \<open>verifyTaskMutation\<close>; both calls report success and the row has the new status. On
  the HR dashboard, approving the pending task 1 takes it from pending to verified, a
  pair that the table of section 4.3 does not have.
\<close>

theorem verified_task_set_back_to_pending:
  "status_and_reason (example_db Verified) 1 = [(Verified, None)]
   \<and> updateTaskMutation (example_db Verified) (Some 7) 1 ''pending'' None
       = (Inr (), example_db Pending)
   \<and> status_and_reason (example_db Completed) 1 = [(Completed, None)]
   \<and> fst (verifyTaskMutation (example_db Completed) (Some 7) 0 1 ReviewRejected
            (Some ''too late'')) = Inr ()
   \<and> status_and_reason
        (snd (verifyTaskMutation (example_db Completed) (Some 7) 0 1 ReviewRejected
                (Some ''too late''))) 1
       = [(Rejected, Some ''too late'')]
   \<and> status_and_reason (example_db Pending) 1 = [(Pending, None)]
   \<and> fst (handleApprove (example_db Pending) (Some 7) 0
              (example_task 1 Pending (Some (civil 2024 1 13)))) = Inr ()
   \<and> status_and_reason
        (snd (handleApprove (example_db Pending) (Some 7) 0
                (example_task 1 Pending (Some (civil 2024 1 13))))) 1
       = [(Verified, None)]"
  by (simp add: example_eval updateTaskMutation_def handleApprove_def verifyTaskMutation_def)

text \<open>
  Claim C8, as the code has it. When the caller's profile has neither the role admin
  nor the role hr, neither \<open>verifyTaskMutation\<close> nor \<open>updateTaskMutation\<close> changes the
  database, whatever the task, the requested status and the other arguments; both
  report success, and no error tells the caller that the change was refused.
\<close>

theorem update_by_other_role_changes_nothing:
  assumes "\<not> admins_and_hr_can_manage db uid"
  shows "verifyTaskMutation db uid now i rs reason = (Inr (), db)
         \<and> updateTaskMutation db uid i stext doc = (Inr (), db)"
  using assms
  by (auto simp: verifyTaskMutation_def updateTaskMutation_def update_eq_id_def
        update_rows_denied Let_def split: option.splits)

theorem update_by_other_role_changes_nothing_witness:
  "\<not> admins_and_hr_can_manage (example_db Submitted) (Some 8)
   \<and> verifyTaskMutation (example_db Submitted) (Some 8) 0 1 ReviewVerified None
       = (Inr (), example_db Submitted)
   \<and> updateTaskMutation (example_db Submitted) (Some 8) 1 ''verified'' None
       = (Inr (), example_db Submitted)"
proof -
  have h: "\<not> admins_and_hr_can_manage (example_db Submitted) (Some 8)"
    by (simp add: example_eval)
  from update_by_other_role_changes_nothing
         [OF h, of 0 1 ReviewVerified None "''verified''" None] h
  show ?thesis by blast
qed

text \<open>
  Claim C8 as the spec states it fails: the manager (user 8) approves the submitted
  task 1 on the HR dashboard; the call does not fail, it reports success, and the task
  stays submitted.
\<close>

theorem manager_verify_reports_success:
  "handleApprove (example_db Submitted) (Some 8) 0
       (example_task 1 Submitted (Some (civil 2024 1 13)))
     = (Inr (), example_db Submitted)
   \<and> verifyTaskMutation (example_db Submitted) (Some 8) 0 1 ReviewVerified None
     = (Inr (), example_db Submitted)
   \<and> status_and_reason (example_db Submitted) 1 = [(Submitted, None)]"
  by (simp add: example_eval handleApprove_def verifyTaskMutation_def)

lemma status_and_reason_update:
  "admins_and_hr_can_manage db uid \<Longrightarrow>
     status_and_reason (snd (update_rows db uid u i)) i
       = map (\<lambda>(s, r). (new_status u, set_column (new_rejection_reason u) r))
           (status_and_reason db i)"
  by (simp add: status_and_reason_def update_rows_table apply_update_def)

lemma admitted_after_update:
  "admins_and_hr_can_manage (snd (update_rows db uid u i)) uid'
     = admins_and_hr_can_manage db uid'"
  by (rule admins_and_hr_can_manage_cong) simp

text \<open>
  Claim C2, as the code has it. For callers whom the row-level policy admits and a task
  in status submitted: rejecting it with a non-empty reason, by \<open>verifyTaskMutation\<close>,
  sets its status to rejected and stores the reason; a later re-submission (by
  \<open>updateTaskMutation\<close> or \<open>handleFileUpload\<close>) sets the status back to submitted and
  leaves the stored reason in place. \<open>handleReject\<close> sends the rejection when the reason
  is not blank, and sends nothing when it is.
\<close>

theorem reject_stores_reason_resubmission_keeps_it:
  assumes "admins_and_hr_can_manage db uid"
    and "admins_and_hr_can_manage db uid'"
    and "status_and_reason db i = [(Submitted, r0)]"
    and "reason \<noteq> []"
  shows "status_and_reason
           (snd (verifyTaskMutation db uid now i ReviewRejected (Some reason))) i
           = [(Rejected, Some reason)]
         \<and> status_and_reason
             (snd (updateTaskMutation
                     (snd (verifyTaskMutation db uid now i ReviewRejected (Some reason)))
                     uid' i ''submitted'' doc')) i
           = [(Submitted, Some reason)]
         \<and> status_and_reason
             (snd (handleFileUpload
                     (snd (verifyTaskMutation db uid now i ReviewRejected (Some reason)))
                     uid' i file_name)) i
           = [(Submitted, Some reason)]
         \<and> (trim reason \<noteq> [] \<longrightarrow>
               handleReject db uid now (Some t) reason
                 = (Some (Inr ()),
                    snd (verifyTaskMutation db uid now (task_id t) ReviewRejected (Some reason))))
         \<and> (trim blank = [] \<longrightarrow> handleReject db uid now selected blank = (None, db))"
proof -
  let ?db1 = "snd (verifyTaskMutation db uid now i ReviewRejected (Some reason))"
  have truthy: "truthy (Some reason) = Some reason"
    using assms(4) by (simp add: truthy_def)
  have rej1: "status_and_reason ?db1 i = [(Rejected, Some reason)]"
    by (simp add: verifyTaskMutation_eq status_and_reason_update [OF assms(1)] assms(3)
          truthy set_column_def)
  have adm1: "admins_and_hr_can_manage ?db1 uid'"
    by (simp add: verifyTaskMutation_eq admitted_after_update assms(2))
  have sub: "status_of_string ''submitted'' = Some Submitted"
    by (simp add: status_of_string_def)
  have re1: "status_and_reason (snd (updateTaskMutation ?db1 uid' i ''submitted'' d)) i
               = [(Submitted, Some reason)]" for d
    by (simp add: updateTaskMutation_eq [OF sub] status_and_reason_update [OF adm1] rej1
          set_column_def)
  have re2: "status_and_reason (snd (handleFileUpload ?db1 uid' i file_name)) i
               = [(Submitted, Some reason)]"
    unfolding handleFileUpload_def by (rule re1)
  have hr1: "trim reason \<noteq> [] \<longrightarrow>
               handleReject db uid now (Some t) reason
                 = (Some (Inr ()),
                    snd (verifyTaskMutation db uid now (task_id t) ReviewRejected (Some reason)))"
    by (simp add: handleReject_def verifyTaskMutation_eq)
  have hr2: "trim blank = [] \<longrightarrow> handleReject db uid now selected blank = (None, db)"
    by (simp add: handleReject_def split: option.splits)
  from rej1 re1 re2 hr1 hr2 show ?thesis by blast
qed

lemma trim_missing_signature: "trim ''missing signature'' \<noteq> []"
  by (simp add: trim_def js_whitespace_def)

lemma trim_blank: "trim ''  '' = []"
  by (simp add: trim_def js_whitespace_def)

theorem reject_stores_reason_resubmission_keeps_it_witness:
  "admins_and_hr_can_manage (example_db Submitted) (Some 7)
   \<and> status_and_reason (example_db Submitted) 1 = [(Submitted, None)]
   \<and> ''missing signature'' \<noteq> []
   \<and> trim ''missing signature'' \<noteq> []
   \<and> trim ''  '' = []
   \<and> status_and_reason
        (snd (verifyTaskMutation (example_db Submitted) (Some 7) 0 1 ReviewRejected
                (Some ''missing signature''))) 1
      = [(Rejected, Some ''missing signature'')]
   \<and> status_and_reason
        (snd (handleFileUpload
                (snd (verifyTaskMutation (example_db Submitted) (Some 7) 0 1 ReviewRejected
                        (Some ''missing signature'')))
                (Some 7) 1 ''passport.pdf'')) 1
      = [(Submitted, Some ''missing signature'')]
   \<and> handleReject (example_db Submitted) (Some 7) 0 None ''  '' = (None, example_db Submitted)"
proof -
  have h1: "admins_and_hr_can_manage (example_db Submitted) (Some 7)"
    by (simp add: example_eval)
  have h3: "status_and_reason (example_db Submitted) 1 = [(Submitted, None)]"
    by (simp add: example_eval)
  have h4: "''missing signature'' \<noteq> []"
    by simp
  from reject_stores_reason_resubmission_keeps_it
         [OF h1 h1 h3 h4, where now = 0 and doc' = None and file_name = "''passport.pdf''"
            and t = "example_task 1 Submitted None" and blank = "''  ''" and selected = None]
       h1 h3 h4 trim_missing_signature trim_blank
  show ?thesis by blast
qed

text \<open>
  Claim C2 as the spec states it fails. After the rejection of task 1 for a missing
  signature, the re-submission by a caller the policy admits (through
  \<open>handleFileUpload\<close>) sets the status to submitted and leaves
  \<open>rejection_reason = 'missing signature'\<close>; the re-submission by the user with the role
  employee changes nothing.
\<close>

theorem resubmission_keeps_rejection_reason:
  "status_and_reason (example_db Submitted) 1 = [(Submitted, None)]
   \<and> status_and_reason rejected_db 1 = [(Rejected, Some ''missing signature'')]
   \<and> status_and_reason (snd (handleFileUpload rejected_db (Some 7) 1 ''passport.pdf'')) 1
       = [(Submitted, Some ''missing signature'')]
   \<and> handleFileUpload rejected_db (Some 9) 1 ''passport.pdf'' = (Inr (), rejected_db)"
  by (simp add: rejected_db_def handleReject_def verifyTaskMutation_def trim_missing_signature
        handleFileUpload_def updateTaskMutation_def example_eval)

section \<open>Properties of the template engine\<close>

lemma insert_template_task_Inr:
  assumes "insert_template_task d e task db = Inr db'"
  shows "\<exists>row. db' = db\<lparr>onboarding_checklist := onboarding_checklist db @ [row]\<rparr>
           \<and> employee_id row = e \<and> status row = Pending
           \<and> Some (task_name row) = map_of task ''task_name''
           \<and> due_date row = blueprint_due_date d task"
  using assms
  by (auto simp: insert_template_task_def blueprint_due_date_def
           split: option.splits sum.splits if_splits)

lemma insert_loop_Inr:
  "insert_loop d e ts db = Inr db' \<Longrightarrow>
     \<exists>new. db' = db\<lparr>onboarding_checklist := onboarding_checklist db @ new\<rparr>
       \<and> map (\<lambda>row. (employee_id row, Some (task_name row), due_date row, status row)) new
           = map (\<lambda>task. (e, map_of task ''task_name'', blueprint_due_date d task, Pending)) ts"
proof (induction ts arbitrary: db)
  case Nil
  then have "db' = db\<lparr>onboarding_checklist := onboarding_checklist db @ []\<rparr>"
    by simp
  then show ?case by (intro exI [of _ "[]"]) simp
next
  case (Cons task ts)
  from Cons.prems obtain db1
    where first: "insert_template_task d e task db = Inr db1"
      and rest: "insert_loop d e ts db1 = Inr db'"
    by (auto split: sum.splits)
  from insert_template_task_Inr [OF first] obtain row
    where row: "db1 = db\<lparr>onboarding_checklist := onboarding_checklist db @ [row]\<rparr>"
      "employee_id row = e" "status row = Pending"
      "Some (task_name row) = map_of task ''task_name''"
      "due_date row = blueprint_due_date d task"
    by blast
  from Cons.IH [OF rest] obtain new
    where new: "db' = db1\<lparr>onboarding_checklist := onboarding_checklist db1 @ new\<rparr>"
      "map (\<lambda>row. (employee_id row, Some (task_name row), due_date row, status row)) new
         = map (\<lambda>task. (e, map_of task ''task_name'', blueprint_due_date d task, Pending)) ts"
    by blast
  have "db' = db\<lparr>onboarding_checklist := onboarding_checklist db @ (row # new)\<rparr>"
    by (simp add: new(1) row(1))
  with row new(2) show ?case
    by (intro exI [of _ "row # new"]) simp
qed

lemma template_call_cases:
  "create_onboarding_tasks_from_template db d e tid = (Inr (), db')
     \<longleftrightarrow> template_function_body d e tid db = Inr db'"
  by (auto simp: create_onboarding_tasks_from_template_def split: sum.splits)

lemma template_call_success:
  assumes "create_onboarding_tasks_from_template db d e tid = (Inr (), db')"
    and "select_template_tasks db tid = Some ts"
  shows "\<exists>new. db' = db\<lparr>onboarding_checklist := onboarding_checklist db @ new\<rparr>
       \<and> map (\<lambda>row. (employee_id row, Some (task_name row), due_date row, status row)) new
           = map (\<lambda>task. (e, map_of task ''task_name'', blueprint_due_date d task, Pending)) ts"
proof -
  from assms have "insert_loop d e ts db = Inr db'"
    by (simp add: template_call_cases template_function_body_def)
  then show ?thesis by (rule insert_loop_Inr)
qed

lemmas template_eval =
  create_onboarding_tasks_from_template_def template_function_body_def
  select_template_tasks_def insert_template_task_def blueprint_due_date_def
  cast_integer_def isspace_def digit_value_def task_type_check_def gen_random_uuid_def
  blueprint_def civil_def Let_def

text \<open>
  Claim C6, as the code has it. When a template is applied with success, the tasks it
  creates come in the order of the blueprints, and the due date of each is the current
  date of the call (\<open>CURRENT_DATE\<close>) plus the blueprint's \<open>due_days\<close> (NULL for a
  blueprint without \<open>due_days\<close>). The employee's hire date plays no part.
\<close>

theorem template_due_date_is_current_date_plus_due_days:
  assumes "create_onboarding_tasks_from_template db current_date e tid = (Inr (), db')"
    and "select_template_tasks db tid = Some ts"
  shows "(\<exists>new. onboarding_checklist db' = onboarding_checklist db @ new
            \<and> map due_date new = map (blueprint_due_date current_date) ts)
         \<and> (\<forall>task \<in> set ts. \<forall>days n.
               map_of task ''due_days'' = Some days \<and> cast_integer days = Inr n
                 \<longrightarrow> blueprint_due_date current_date task = Some (current_date + n))"
proof
  from template_call_success [OF assms] obtain new
    where new: "db' = db\<lparr>onboarding_checklist := onboarding_checklist db @ new\<rparr>"
      "map (\<lambda>row. (employee_id row, Some (task_name row), due_date row, status row)) new
         = map (\<lambda>task. (e, map_of task ''task_name'', blueprint_due_date current_date task,
                         Pending)) ts"
    by blast
  from new(2)
  have "map (fst \<circ> snd \<circ> snd)
          (map (\<lambda>row. (employee_id row, Some (task_name row), due_date row, status row)) new)
        = map (fst \<circ> snd \<circ> snd)
            (map (\<lambda>task. (e, map_of task ''task_name'', blueprint_due_date current_date task,
                           Pending)) ts)"
    by simp
  then have "map due_date new = map (blueprint_due_date current_date) ts"
    by (simp add: comp_def)
  with new(1)
  show "\<exists>new. onboarding_checklist db' = onboarding_checklist db @ new
          \<and> map due_date new = map (blueprint_due_date current_date) ts"
    by (intro exI [of _ new]) simp
  show "\<forall>task \<in> set ts. \<forall>days n.
          map_of task ''due_days'' = Some days \<and> cast_integer days = Inr n
            \<longrightarrow> blueprint_due_date current_date task = Some (current_date + n)"
    by (simp add: blueprint_due_date_def)
qed

lemma one_blueprint_call:
  "create_onboarding_tasks_from_template one_blueprint_db (civil 2024 2 1) 1 None
     = (Inr (),
        one_blueprint_db\<lparr>onboarding_checklist := [one_blueprint_task (civil 2024 2 4)]\<rparr>)"
  by (simp add: one_blueprint_db_def one_blueprint_task_def template_eval)

lemma one_blueprint_select:
  "select_template_tasks one_blueprint_db None
     = Some [blueprint ''Upload Identity Document'' ''Upload a valid ID''
               ''document'' ''Employee'' ''3'' ''high'']"
  by (simp add: one_blueprint_db_def select_template_tasks_def)

theorem template_due_date_is_current_date_plus_due_days_witness:
  "create_onboarding_tasks_from_template one_blueprint_db (civil 2024 2 1) 1 None
     = (Inr (),
        one_blueprint_db\<lparr>onboarding_checklist := [one_blueprint_task (civil 2024 2 4)]\<rparr>)
   \<and> select_template_tasks one_blueprint_db None
     = Some [blueprint ''Upload Identity Document'' ''Upload a valid ID''
               ''document'' ''Employee'' ''3'' ''high'']
   \<and> map_of (blueprint ''Upload Identity Document'' ''Upload a valid ID''
               ''document'' ''Employee'' ''3'' ''high'') ''due_days'' = Some ''3''
   \<and> cast_integer ''3'' = Inr 3
   \<and> blueprint_due_date (civil 2024 2 1)
        (blueprint ''Upload Identity Document'' ''Upload a valid ID''
           ''document'' ''Employee'' ''3'' ''high'')
     = Some (civil 2024 2 1 + 3)"
proof -
  have days: "map_of (blueprint ''Upload Identity Document'' ''Upload a valid ID''
                  ''document'' ''Employee'' ''3'' ''high'') ''due_days'' = Some ''3''"
    by (simp add: blueprint_def)
  have cast: "cast_integer ''3'' = Inr 3"
    by (simp add: cast_integer_def isspace_def digit_value_def Let_def)
  from template_due_date_is_current_date_plus_due_days
         [OF one_blueprint_call one_blueprint_select] days cast
  have "blueprint_due_date (civil 2024 2 1)
          (blueprint ''Upload Identity Document'' ''Upload a valid ID''
             ''document'' ''Employee'' ''3'' ''high'')
        = Some (civil 2024 2 1 + 3)"
    by simp
  with one_blueprint_call one_blueprint_select days cast show ?thesis by blast
qed

text \<open>
  Claim C6 as the spec states it fails: the employee was hired on 2024-01-10, the
  default template has one blueprint with \<open>due_days\<close> 3, and the template is applied on
  2024-02-01; the task is due on 2024-02-04, not on 2024-01-13.
\<close>

theorem template_due_date_not_from_hire_date:
  "map hire_date (employees one_blueprint_db) = [Some (civil 2024 1 10)]
   \<and> map due_date
        (onboarding_checklist
           (snd (create_onboarding_tasks_from_template one_blueprint_db (civil 2024 2 1) 1 None)))
       = [Some (civil 2024 2 4)]
   \<and> civil 2024 1 10 + 3 = civil 2024 1 13
   \<and> civil 2024 2 4 \<noteq> civil 2024 1 13"
proof -
  have a: "map hire_date (employees one_blueprint_db) = [Some (civil 2024 1 10)]"
    by (simp add: one_blueprint_db_def)
  have b: "map due_date
        (onboarding_checklist
           (snd (create_onboarding_tasks_from_template one_blueprint_db (civil 2024 2 1) 1 None)))
       = [Some (civil 2024 2 4)]"
    unfolding one_blueprint_call by (simp add: one_blueprint_task_def)
  have c: "civil 2024 1 10 + 3 = civil 2024 1 13" "civil 2024 2 4 \<noteq> civil 2024 1 13"
    by (simp_all add: civil_def)
  from a b c show ?thesis by blast
qed

lemma insert_loop_failure:
  "insert_loop d e pre db = Inr db_mid \<Longrightarrow> insert_template_task d e task db_mid = Inl err
     \<Longrightarrow> insert_loop d e (pre @ task # post) db = Inl err"
  by (induction pre arbitrary: db) (auto split: sum.splits)

text \<open>
  Claim C7. If, after the inserts for a first part of the template's blueprints, the
  insert for the next blueprint fails, the call returns that error and the database is
  the one before the call: no task of the template is left. A call that returns an
  error never changes the database. A call that succeeds on a template appends one
  task per blueprint, in the order of the blueprints, with the blueprint's name, for
  the employee given and in status pending, and changes nothing else.
\<close>

theorem template_application_is_atomic:
  "(select_template_tasks db tid = Some (pre @ task # post)
      \<and> insert_loop d e pre db = Inr db_mid
      \<and> insert_template_task d e task db_mid = Inl err
      \<longrightarrow> create_onboarding_tasks_from_template db d e tid = (Inl err, db))
   \<and> (fst (create_onboarding_tasks_from_template db d e tid) = Inl err
      \<longrightarrow> snd (create_onboarding_tasks_from_template db d e tid) = db)
   \<and> (create_onboarding_tasks_from_template db d e tid = (Inr (), db')
      \<and> select_template_tasks db tid = Some ts
      \<longrightarrow> (\<exists>new. db' = db\<lparr>onboarding_checklist := onboarding_checklist db @ new\<rparr>
             \<and> length new = length ts
             \<and> map (\<lambda>row. Some (task_name row)) new = map (\<lambda>b. map_of b ''task_name'') ts
             \<and> (\<forall>row \<in> set new. employee_id row = e \<and> status row = Pending)))"
proof (intro conjI impI)
  assume a: "select_template_tasks db tid = Some (pre @ task # post)
      \<and> insert_loop d e pre db = Inr db_mid
      \<and> insert_template_task d e task db_mid = Inl err"
  then have "insert_loop d e (pre @ task # post) db = Inl err"
    by (simp add: insert_loop_failure)
  with a show "create_onboarding_tasks_from_template db d e tid = (Inl err, db)"
    by (simp add: create_onboarding_tasks_from_template_def template_function_body_def)
next
  assume "fst (create_onboarding_tasks_from_template db d e tid) = Inl err"
  then show "snd (create_onboarding_tasks_from_template db d e tid) = db"
    by (auto simp: create_onboarding_tasks_from_template_def split: sum.splits)
next
  assume a: "create_onboarding_tasks_from_template db d e tid = (Inr (), db')
      \<and> select_template_tasks db tid = Some ts"
  then obtain new
    where new: "db' = db\<lparr>onboarding_checklist := onboarding_checklist db @ new\<rparr>"
      "map (\<lambda>row. (employee_id row, Some (task_name row), due_date row, status row)) new
         = map (\<lambda>b. (e, map_of b ''task_name'', blueprint_due_date d b, Pending)) ts"
    using template_call_success by blast
  from new(2) have len: "length new = length ts"
    by (rule map_eq_imp_length_eq)
  from new(2)
  have "map (fst \<circ> snd)
          (map (\<lambda>row. (employee_id row, Some (task_name row), due_date row, status row)) new)
        = map (fst \<circ> snd)
            (map (\<lambda>b. (e, map_of b ''task_name'', blueprint_due_date d b, Pending)) ts)"
    by simp
  then have names: "map (\<lambda>row. Some (task_name row)) new = map (\<lambda>b. map_of b ''task_name'') ts"
    by (simp add: comp_def)
  have each: "employee_id row = e \<and> status row = Pending" if "row \<in> set new" for row
  proof -
    from that have "(employee_id row, Some (task_name row), due_date row, status row)
        \<in> set (map (\<lambda>row. (employee_id row, Some (task_name row), due_date row, status row)) new)"
      by simp
    with new(2) show ?thesis by auto
  qed
  from new(1) len names each
  show "\<exists>new. db' = db\<lparr>onboarding_checklist := onboarding_checklist db @ new\<rparr>
             \<and> length new = length ts
             \<and> map (\<lambda>row. Some (task_name row)) new = map (\<lambda>b. map_of b ''task_name'') ts
             \<and> (\<forall>row \<in> set new. employee_id row = e \<and> status row = Pending)"
    by (intro exI [of _ new]) simp
qed

lemma third_insert_select:
  "select_template_tasks third_insert_fails_db (Some 2)
     = Some (first_two_blueprints @ failing_blueprint # last_two_blueprints)"
  by (simp add: third_insert_fails_db_def select_template_tasks_def
        default_onboarding_template_def five_blueprints_def)

lemma third_insert_first_two:
  "insert_loop (civil 2024 2 1) 1 first_two_blueprints third_insert_fails_db
     = Inr after_two_inserts"
  by (simp add: after_two_inserts_def first_two_blueprints_def third_insert_fails_db_def
        example_db_def example_task_def template_eval)

lemma after_two_inserts_rows:
  "map task_name (onboarding_checklist after_two_inserts)
     = [''Upload Identity Document'', ''Upload Identity Document'', ''Bank Account Information'']"
  by (simp add: after_two_inserts_def first_two_blueprints_def third_insert_fails_db_def
        example_db_def example_task_def template_eval)

lemma third_insert_fails:
  "insert_template_task (civil 2024 2 1) 1 failing_blueprint after_two_inserts
     = Inl CheckViolation"
  by (simp add: failing_blueprint_def insert_template_task_def cast_integer_def isspace_def
        digit_value_def task_type_check_def blueprint_def Let_def)

text \<open>
  The theorem on a template of five blueprints whose third is refused by the \<open>CHECK\<close> on
  \<open>task_type\<close>: inside the call the first two tasks are inserted after the one task
  that the table had, the third insert fails, and the call leaves the database as it
  was. On the template of one blueprint the call succeeds and appends one task.
\<close>

theorem template_application_is_atomic_witness:
  "select_template_tasks third_insert_fails_db (Some 2)
     = Some (first_two_blueprints @ failing_blueprint # last_two_blueprints)
   \<and> insert_loop (civil 2024 2 1) 1 first_two_blueprints third_insert_fails_db
     = Inr after_two_inserts
   \<and> map task_name (onboarding_checklist after_two_inserts)
     = [''Upload Identity Document'', ''Upload Identity Document'', ''Bank Account Information'']
   \<and> insert_template_task (civil 2024 2 1) 1 failing_blueprint after_two_inserts
     = Inl CheckViolation
   \<and> create_onboarding_tasks_from_template third_insert_fails_db (civil 2024 2 1) 1 (Some 2)
     = (Inl CheckViolation, third_insert_fails_db)
   \<and> snd (create_onboarding_tasks_from_template third_insert_fails_db (civil 2024 2 1) 1
            (Some 2))
     = third_insert_fails_db
   \<and> create_onboarding_tasks_from_template one_blueprint_db (civil 2024 2 1) 1 None
     = (Inr (),
        one_blueprint_db\<lparr>onboarding_checklist := [one_blueprint_task (civil 2024 2 4)]\<rparr>)
   \<and> (\<exists>new. one_blueprint_db\<lparr>onboarding_checklist := [one_blueprint_task (civil 2024 2 4)]\<rparr>
             = one_blueprint_db
                 \<lparr>onboarding_checklist := onboarding_checklist one_blueprint_db @ new\<rparr>
          \<and> length new = 1)"
proof -
  note fail = template_application_is_atomic
      [of third_insert_fails_db "Some 2" first_two_blueprints failing_blueprint
          last_two_blueprints "civil 2024 2 1" 1 after_two_inserts CheckViolation]
  note ok = template_application_is_atomic
      [of one_blueprint_db None "[]" failing_blueprint "[]" "civil 2024 2 1" 1
          one_blueprint_db CheckViolation
          "one_blueprint_db\<lparr>onboarding_checklist := [one_blueprint_task (civil 2024 2 4)]\<rparr>"
          "[blueprint ''Upload Identity Document'' ''Upload a valid ID''
               ''document'' ''Employee'' ''3'' ''high'']"]
  from fail third_insert_select third_insert_first_two third_insert_fails
  have call: "create_onboarding_tasks_from_template third_insert_fails_db (civil 2024 2 1) 1
                (Some 2)
              = (Inl CheckViolation, third_insert_fails_db)"
    by blast
  then have "fst (create_onboarding_tasks_from_template third_insert_fails_db (civil 2024 2 1) 1
                (Some 2)) = Inl CheckViolation"
    by simp
  with fail
  have unchanged: "snd (create_onboarding_tasks_from_template third_insert_fails_db
                          (civil 2024 2 1) 1 (Some 2))
                   = third_insert_fails_db"
    by blast
  from ok one_blueprint_call one_blueprint_select
  have "\<exists>new. one_blueprint_db\<lparr>onboarding_checklist := [one_blueprint_task (civil 2024 2 4)]\<rparr>
             = one_blueprint_db
                 \<lparr>onboarding_checklist := onboarding_checklist one_blueprint_db @ new\<rparr>
          \<and> length new
              = length [blueprint ''Upload Identity Document'' ''Upload a valid ID''
                          ''document'' ''Employee'' ''3'' ''high'']"
    by blast
  then
  have "\<exists>new. one_blueprint_db\<lparr>onboarding_checklist := [one_blueprint_task (civil 2024 2 4)]\<rparr>
             = one_blueprint_db
                 \<lparr>onboarding_checklist := onboarding_checklist one_blueprint_db @ new\<rparr>
          \<and> length new = 1"
    by simp
  with third_insert_select third_insert_first_two after_two_inserts_rows third_insert_fails
    call unchanged one_blueprint_call
  show ?thesis by blast
qed

section \<open>Properties of the trigger\<close>

lemma template_call_appends:
  "\<exists>added. onboarding_checklist (snd (create_onboarding_tasks_from_template db d e tid))
     = onboarding_checklist db @ added"
proof (cases "template_function_body d e tid db")
  case (Inl err)
  then have "snd (create_onboarding_tasks_from_template db d e tid) = db"
    by (simp add: create_onboarding_tasks_from_template_def)
  then show ?thesis by simp
next
  case (Inr db')
  show ?thesis
  proof (cases "select_template_tasks db tid")
    case None
    with Inr have "snd (create_onboarding_tasks_from_template db d e tid) = db"
      by (simp add: create_onboarding_tasks_from_template_def template_function_body_def)
    then show ?thesis by simp
  next
    case (Some ts)
    from Inr have "create_onboarding_tasks_from_template db d e tid = (Inr (), db')"
      by (simp add: template_call_cases)
    from template_call_success [OF this Some] this show ?thesis by auto
  qed
qed

lemma plus_days_0: "plus_days d 0 = d"
  by (cases d) (simp_all add: plus_days_def)

text \<open>
  Claim C10. The trigger function, run for a new row of \<open>employees\<close>, appends exactly five
  tasks for that employee to \<open>onboarding_checklist\<close>: IT Setup, HR Documentation, Office
  Tour, Training Schedule and Payroll Setup, due 1, 3, 0, 7 and 5 days after the hire
  date (NULL when the hire date is NULL), in status pending. No template is read. A later
  application of a template, whatever its outcome, keeps these rows and can only append
  its own tasks after them.
\<close>

theorem trigger_creates_five_tasks:
  "(\<exists>new. onboarding_checklist (create_onboarding_checklist NEW db)
            = onboarding_checklist db @ new
      \<and> length new = 5
      \<and> map task_name new
          = [''IT Setup'', ''HR Documentation'', ''Office Tour'', ''Training Schedule'',
             ''Payroll Setup'']
      \<and> map due_date new
          = map (plus_days (hire_date NEW)) [1, 3, 0, 7, 5]
      \<and> map employee_id new = replicate 5 (emp_id NEW)
      \<and> map status new = replicate 5 Pending)
   \<and> onboarding_templates (create_onboarding_checklist NEW db) = onboarding_templates db
   \<and> (\<exists>added. onboarding_checklist
                 (snd (create_onboarding_tasks_from_template
                         (create_onboarding_checklist NEW db) d e tid))
               = onboarding_checklist (create_onboarding_checklist NEW db) @ added)"
proof (intro conjI)
  show "\<exists>new. onboarding_checklist (create_onboarding_checklist NEW db)
            = onboarding_checklist db @ new
      \<and> length new = 5
      \<and> map task_name new
          = [''IT Setup'', ''HR Documentation'', ''Office Tour'', ''Training Schedule'',
             ''Payroll Setup'']
      \<and> map due_date new
          = map (plus_days (hire_date NEW)) [1, 3, 0, 7, 5]
      \<and> map employee_id new = replicate 5 (emp_id NEW)
      \<and> map status new = replicate 5 Pending"
    by (simp add: create_onboarding_checklist_def insert_default_task_def plus_days_0
          numeral_eq_Suc)
  show "onboarding_templates (create_onboarding_checklist NEW db) = onboarding_templates db"
    by (simp add: create_onboarding_checklist_def insert_default_task_def)
  show "\<exists>added. onboarding_checklist
                 (snd (create_onboarding_tasks_from_template
                         (create_onboarding_checklist NEW db) d e tid))
               = onboarding_checklist (create_onboarding_checklist NEW db) @ added"
    by (rule template_call_appends)
qed

text \<open>
  The theorem for the employee 2, hired on 2024-01-10, on the example database: the
  five tasks are due on 2024-01-11, 2024-01-13, 2024-01-10, 2024-01-17 and 2024-01-15.
\<close>

theorem trigger_creates_five_tasks_witness:
  "\<exists>new. onboarding_checklist
            (create_onboarding_checklist \<lparr>emp_id = 2, hire_date = Some (civil 2024 1 10)\<rparr>
               (example_db Pending))
          = onboarding_checklist (example_db Pending) @ new
      \<and> map task_name new
          = [''IT Setup'', ''HR Documentation'', ''Office Tour'', ''Training Schedule'',
             ''Payroll Setup'']
      \<and> map due_date new
          = [Some (civil 2024 1 11), Some (civil 2024 1 13), Some (civil 2024 1 10),
             Some (civil 2024 1 17), Some (civil 2024 1 15)]
      \<and> map employee_id new = [2, 2, 2, 2, 2]"
proof -
  have dates: "map (plus_days (Some (civil 2024 1 10))) [1, 3, 0, 7, 5]
                 = [Some (civil 2024 1 11), Some (civil 2024 1 13), Some (civil 2024 1 10),
                    Some (civil 2024 1 17), Some (civil 2024 1 15)]"
    by (simp add: plus_days_def civil_def)
  have five: "replicate 5 (2::nat) = [2, 2, 2, 2, 2]"
    by (simp add: numeral_eq_Suc)
  from trigger_creates_five_tasks
         [of "\<lparr>emp_id = 2, hire_date = Some (civil 2024 1 10)\<rparr>" "example_db Pending"
             0 2 None]
  obtain new
    where "onboarding_checklist
             (create_onboarding_checklist \<lparr>emp_id = 2, hire_date = Some (civil 2024 1 10)\<rparr>
                (example_db Pending))
           = onboarding_checklist (example_db Pending) @ new"
      and "map task_name new
           = [''IT Setup'', ''HR Documentation'', ''Office Tour'', ''Training Schedule'',
              ''Payroll Setup'']"
      and "map due_date new = map (plus_days (Some (civil 2024 1 10))) [1, 3, 0, 7, 5]"
      and "map employee_id new = replicate 5 2"
    by auto
  with dates five show ?thesis
    by (intro exI [of _ new]) simp
qed

end
